theory Spec2Isabelle
  imports Main
begin

unbundle bit_operations_syntax

section \<open>Client-side TLS engine of Postfix (\<^verbatim>\<open>src/tls/tls_client.c\<close>)\<close>

text \<open>
  A shallow embedding of \<^verbatim>\<open>tls_client.c\<close>: the hostname matcher, the peer verifier,
  the session-cache helpers, the engine initialisation and the per-connection start-up
  routine. Calls into OpenSSL, into the \<^verbatim>\<open>tlsmgr(8)\<close> client and into the logger are
  events of a trace; what such a call returns is read from an environment record.
\<close>

subsection \<open>C strings\<close>

text \<open>
  A \<^verbatim>\<open>const char *\<close> is modelled by the bytes stored at the pointer. The buffer is
  followed by the terminating NUL, so reading at or beyond the end of the list yields NUL,
  and a NUL inside the list ends the C string early (an ASN.1 IA5 string of a certificate
  may hold one). \<open>c_str\<close> is the C string a buffer holds.
\<close>

definition NUL :: char where
  "NUL = CHR 0x00"

definition c_at :: "string \<Rightarrow> nat \<Rightarrow> char" where
  "c_at s i = (if i < length s then s ! i else NUL)"

definition c_str :: "string \<Rightarrow> string" where
  "c_str s = takeWhile (\<lambda>c. c \<noteq> NUL) s"

text \<open>\<^verbatim>\<open>tolower()\<close> of the C library in the C/POSIX locale: only \<^verbatim>\<open>'A'..'Z'\<close> change.\<close>

definition tolower :: "char \<Rightarrow> char" where
  "tolower c =
     (if 65 \<le> (of_char c :: nat) \<and> (of_char c :: nat) \<le> 90
      then char_of ((of_char c :: nat) + 32) else c)"

text \<open>
  \<^verbatim>\<open>strcasecmp(s1, s2)\<close> of the C library: walks both strings while the lower-cased
  bytes agree, returns 0 when the terminator is reached on the way and the difference of
  the first two lower-cased bytes that differ otherwise.
\<close>

fun strcasecmp :: "string \<Rightarrow> string \<Rightarrow> int" where
  "strcasecmp [] [] = 0"
| "strcasecmp [] (y # ys) = 0 - int (of_char (tolower y))"
| "strcasecmp (x # xs) [] = int (of_char (tolower x)) - 0"
| "strcasecmp (x # xs) (y # ys) =
     (if tolower x \<noteq> tolower y
      then int (of_char (tolower x)) - int (of_char (tolower y))
      else if x = NUL then 0
      else strcasecmp xs ys)"

text \<open>
  \<^verbatim>\<open>strchr(s, c)\<close> of the C library: a pointer to the first \<open>c\<close> in the C string (the
  result is the buffer from that byte on), or the null pointer.
\<close>

fun strchr :: "string \<Rightarrow> char \<Rightarrow> string option" where
  "strchr [] c = (if c = NUL then Some [] else None)"
| "strchr (x # xs) c =
     (if x = c then Some (x # xs)
      else if x = NUL then None
      else strchr xs c)"

subsection \<open>\<^verbatim>\<open>match_hostname\<close>\<close>

text \<open>
  \<^verbatim>\<open>
  static int match_hostname(const char *pattern, const char *hostname)
  {
      char   *peername_left;

      return (strcasecmp(hostname, pattern) == 0
              || (pattern[0] == '*' && pattern[1] == '.' && pattern[2] != 0
                  && (peername_left = strchr(hostname, '.')) != 0
                  && strcasecmp(peername_left + 1, pattern + 2) == 0));
  }
  \<close>
  \<^verbatim>\<open>pattern[1]\<close> is read only after \<^verbatim>\<open>pattern[0] == '*'\<close>, and \<^verbatim>\<open>pattern[2]\<close> only after
  \<^verbatim>\<open>pattern[1] == '.'\<close>, so every read stays within the string and its terminator;
  \<^verbatim>\<open>peername_left + 1\<close> and \<^verbatim>\<open>pattern + 2\<close> are the buffers without their first one and
  two bytes.
\<close>

definition match_hostname :: "string \<Rightarrow> string \<Rightarrow> bool" where
  "match_hostname pattern hostname =
     (strcasecmp hostname pattern = 0
      \<or> (c_at pattern 0 = CHR ''*'' \<and> c_at pattern 1 = CHR ''.'' \<and> c_at pattern 2 \<noteq> NUL
         \<and> (case strchr hostname (CHR ''.'') of
              None \<Rightarrow> False
            | Some peername_left \<Rightarrow> strcasecmp (tl peername_left) (drop 2 pattern) = 0)))"

text \<open>
  The matching rule in the words of the specification, on strings: equality up to case, or
  a pattern \<open>*.rest\<close> with \<open>rest\<close> non-empty against a host name that has a dot and whose
  part after the first dot equals \<open>rest\<close> up to case.
\<close>

definition caseless_eq :: "string \<Rightarrow> string \<Rightarrow> bool" where
  "caseless_eq a b = (map tolower a = map tolower b)"

definition after_first_dot :: "string \<Rightarrow> string" where
  "after_first_dot h = tl (dropWhile (\<lambda>c. c \<noteq> CHR ''.'') h)"

definition spec_match :: "string \<Rightarrow> string \<Rightarrow> bool" where
  "spec_match pattern hostname =
     (caseless_eq pattern hostname
      \<or> (take 2 pattern = ''*.'' \<and> drop 2 pattern \<noteq> []
         \<and> CHR ''.'' \<in> set hostname
         \<and> caseless_eq (after_first_dot hostname) (drop 2 pattern)))"

subsection \<open>Calls to the outside\<close>

text \<open>
  Handles of the OpenSSL library are opaque; a null pointer is \<open>None\<close>.
\<close>

type_synonym ssl_ctx = nat
type_synonym ssl = nat
type_synonym bio = nat
type_synonym ssl_session = nat
type_synonym vstream = nat

text \<open>
  The arguments of a call or of a log message (the values that fill its \<^verbatim>\<open>%s\<close> and
  \<^verbatim>\<open>%d\<close>): a string, an integer or a handle.
\<close>

datatype arg = S string | I int | H nat

text \<open>
  One event per log message and per call that leaves this file, in the order in which
  they are made; a call is recorded with the name of the C function and the arguments that
  matter here. Allocation and release of plain memory (\<^verbatim>\<open>mystrdup\<close>, \<^verbatim>\<open>vstring_alloc\<close>,
  \<^verbatim>\<open>vstring_free\<close>) leave no event.
\<close>

datatype event =
    Msg_info string "arg list"
  | Msg_warn string "arg list"
  | Call string "arg list"

abbreviation Tls_print_errors :: "event" where
  "Tls_print_errors \<equiv> Call ''tls_print_errors'' []"

abbreviation Tls_check_version :: "event" where
  "Tls_check_version \<equiv> Call ''tls_check_version'' []"

abbreviation SSL_load_error_strings :: "event" where
  "SSL_load_error_strings \<equiv> Call ''SSL_load_error_strings'' []"

abbreviation OpenSSL_add_ssl_algorithms :: "event" where
  "OpenSSL_add_ssl_algorithms \<equiv> Call ''OpenSSL_add_ssl_algorithms'' []"

abbreviation Tls_ext_seed :: "int \<Rightarrow> event" where
  "Tls_ext_seed nbytes \<equiv> Call ''tls_ext_seed'' [I nbytes]"

abbreviation Tls_int_seed :: "event" where
  "Tls_int_seed \<equiv> Call ''tls_int_seed'' []"

abbreviation SSL_CTX_new :: "event" where
  "SSL_CTX_new \<equiv> Call ''SSL_CTX_new'' []"

abbreviation SSL_CTX_free :: "nat \<Rightarrow> event" where
  "SSL_CTX_free ctx \<equiv> Call ''SSL_CTX_free'' [H ctx]"

abbreviation SSL_CTX_set_options :: "nat \<Rightarrow> int \<Rightarrow> event" where
  "SSL_CTX_set_options ctx off \<equiv> Call ''SSL_CTX_set_options'' [H ctx, I off]"

abbreviation SSL_CTX_set_info_callback :: "nat \<Rightarrow> event" where
  "SSL_CTX_set_info_callback ctx \<equiv> Call ''SSL_CTX_set_info_callback'' [H ctx]"

abbreviation SSL_CTX_set_cipher_list :: "nat \<Rightarrow> string \<Rightarrow> event" where
  "SSL_CTX_set_cipher_list ctx l \<equiv> Call ''SSL_CTX_set_cipher_list'' [H ctx, S l]"

abbreviation Tls_set_ca_certificate_info :: "nat \<Rightarrow> string \<Rightarrow> string \<Rightarrow> event" where
  "Tls_set_ca_certificate_info ctx f p \<equiv> Call ''tls_set_ca_certificate_info'' [H ctx, S f, S p]"

abbreviation Tls_set_my_certificate_key_info :: "nat \<Rightarrow> string \<Rightarrow> string \<Rightarrow> string \<Rightarrow> string \<Rightarrow> event" where
  "Tls_set_my_certificate_key_info ctx c k dc dk \<equiv> Call ''tls_set_my_certificate_key_info'' [H ctx, S c, S k, S dc, S dk]"

abbreviation SSL_CTX_set_tmp_rsa_callback :: "nat \<Rightarrow> event" where
  "SSL_CTX_set_tmp_rsa_callback ctx \<equiv> Call ''SSL_CTX_set_tmp_rsa_callback'' [H ctx]"

abbreviation SSL_CTX_set_verify :: "nat \<Rightarrow> event" where
  "SSL_CTX_set_verify ctx \<equiv> Call ''SSL_CTX_set_verify'' [H ctx]"

abbreviation SSL_CTX_set_timeout :: "nat \<Rightarrow> int \<Rightarrow> event" where
  "SSL_CTX_set_timeout ctx t \<equiv> Call ''SSL_CTX_set_timeout'' [H ctx, I t]"

abbreviation Tls_mgr_policy :: "event" where
  "Tls_mgr_policy \<equiv> Call ''tls_mgr_policy'' []"

abbreviation SSL_CTX_set_session_cache_mode :: "nat \<Rightarrow> event" where
  "SSL_CTX_set_session_cache_mode ctx \<equiv> Call ''SSL_CTX_set_session_cache_mode'' [H ctx]"

abbreviation SSL_CTX_sess_set_new_cb :: "nat \<Rightarrow> event" where
  "SSL_CTX_sess_set_new_cb ctx \<equiv> Call ''SSL_CTX_sess_set_new_cb'' [H ctx]"

abbreviation SSL_get_ex_new_index :: "event" where
  "SSL_get_ex_new_index \<equiv> Call ''SSL_get_ex_new_index'' []"

abbreviation Tls_alloc_context :: "int \<Rightarrow> string \<Rightarrow> event" where
  "Tls_alloc_context loglevel peername \<equiv> Call ''tls_alloc_context'' [I loglevel, S peername]"

abbreviation SSL_new :: "nat \<Rightarrow> event" where
  "SSL_new ctx \<equiv> Call ''SSL_new'' [H ctx]"

abbreviation SSL_set_ex_data :: "nat \<Rightarrow> event" where
  "SSL_set_ex_data c \<equiv> Call ''SSL_set_ex_data'' [H c]"

abbreviation SSL_set_verify :: "nat \<Rightarrow> event" where
  "SSL_set_verify c \<equiv> Call ''SSL_set_verify'' [H c]"

abbreviation BIO_new_bio_pair :: "event" where
  "BIO_new_bio_pair \<equiv> Call ''BIO_new_bio_pair'' []"

abbreviation Tls_mgr_lookup :: "int \<Rightarrow> string \<Rightarrow> event" where
  "Tls_mgr_lookup cache cache_id \<equiv> Call ''tls_mgr_lookup'' [I cache, S cache_id]"

abbreviation Tls_session_activate :: "string \<Rightarrow> event" where
  "Tls_session_activate session_data \<equiv> Call ''tls_session_activate'' [S session_data]"

abbreviation SSL_set_session :: "nat \<Rightarrow> nat \<Rightarrow> event" where
  "SSL_set_session c session \<equiv> Call ''SSL_set_session'' [H c, H session]"

abbreviation SSL_SESSION_free :: "nat \<Rightarrow> event" where
  "SSL_SESSION_free session \<equiv> Call ''SSL_SESSION_free'' [H session]"

abbreviation SSL_set_connect_state :: "nat \<Rightarrow> event" where
  "SSL_set_connect_state c \<equiv> Call ''SSL_set_connect_state'' [H c]"

abbreviation SSL_set_bio :: "nat \<Rightarrow> nat \<Rightarrow> event" where
  "SSL_set_bio c b \<equiv> Call ''SSL_set_bio'' [H c, H b]"

abbreviation BIO_set_callback :: "string \<Rightarrow> event" where
  "BIO_set_callback cb \<equiv> Call ''BIO_set_callback'' [S cb]"

abbreviation Tls_bio_connect :: "nat \<Rightarrow> int \<Rightarrow> event" where
  "Tls_bio_connect fd timeout \<equiv> Call ''tls_bio_connect'' [H fd, I timeout]"

abbreviation Tls_stream_start :: "nat \<Rightarrow> event" where
  "Tls_stream_start stream \<equiv> Call ''tls_stream_start'' [H stream]"

abbreviation X509_get_ext_d2i :: "event" where
  "X509_get_ext_d2i \<equiv> Call ''X509_get_ext_d2i'' []"

abbreviation Sk_GENERAL_NAME_free :: "event" where
  "Sk_GENERAL_NAME_free \<equiv> Call ''sk_GENERAL_NAME_free'' []"

abbreviation X509_free :: "event" where
  "X509_free \<equiv> Call ''X509_free'' []"

abbreviation Tls_mgr_delete :: "int \<Rightarrow> string \<Rightarrow> event" where
  "Tls_mgr_delete cache cache_id \<equiv> Call ''tls_mgr_delete'' [I cache, S cache_id]"

abbreviation Tls_free_context :: "event" where
  "Tls_free_context \<equiv> Call ''tls_free_context'' []"

abbreviation SSL_shutdown :: "event" where
  "SSL_shutdown \<equiv> Call ''SSL_shutdown'' []"

abbreviation Tls_stream_stop :: "nat \<Rightarrow> event" where
  "Tls_stream_stop stream \<equiv> Call ''tls_stream_stop'' [H stream]"

subsection \<open>Data\<close>

text \<open>
  The \<^verbatim>\<open>TLScontext_t\<close> of \<^verbatim>\<open>tls.h\<close>, with the fields this file reads or writes. A
  \<^verbatim>\<open>char *\<close> field that may be the null pointer is a \<open>string option\<close>.
\<close>

record TLScontext =
  serverid :: "string option"
  con :: "ssl option"
  internal_bio :: "bio option"
  network_bio :: "bio option"
  enforce_verify_errors :: int
  enforce_CN :: int
  hostname_matched :: int
  peer_verified :: int
  peer_CN :: "string option"
  issuer_CN :: "string option"
  session_reused :: int
  protocol :: "string option"
  cipher_name :: "string option"
  cipher_usebits :: int
  cipher_algbits :: int

text \<open>
  What this file reads from a peer certificate: the entries of the subject alternative
  name extension (\<^verbatim>\<open>X509_get_ext_d2i(peercert, NID_subject_alt_name, 0, 0)\<close>, null when
  the extension is missing), each with its type tag and the bytes of \<^verbatim>\<open>d.ia5->data\<close>, and
  the results of \<^verbatim>\<open>tls_peer_CN\<close> and \<^verbatim>\<open>tls_issuer_CN\<close> (null when no name can be
  extracted).
\<close>

datatype gen_type =
  GEN_OTHERNAME | GEN_EMAIL | GEN_DNS | GEN_X400 | GEN_DIRNAME | GEN_EDIPARTY | GEN_URI
  | GEN_IPADD | GEN_RID

record general_name =
  gn_type :: gen_type
  gn_data :: string

record x509 =
  subject_alt_name :: "general_name list option"
  tls_peer_CN :: "string option"
  tls_issuer_CN :: "string option"

text \<open>
  What \<^verbatim>\<open>tls_bio_connect\<close> leaves behind: its status and what the session object reports
  afterwards (\<^verbatim>\<open>SSL_session_reused\<close>, \<^verbatim>\<open>SSL_get_peer_certificate\<close>,
  \<^verbatim>\<open>SSL_get_verify_result\<close>, \<^verbatim>\<open>SSL_get_version\<close>, \<^verbatim>\<open>SSL_CIPHER_get_name\<close>,
  \<^verbatim>\<open>SSL_CIPHER_get_bits\<close>).
\<close>

record handshake =
  sts :: int
  SSL_session_reused :: int
  SSL_get_peer_certificate :: "x509 option"
  SSL_get_verify_result :: int
  SSL_get_version :: string
  SSL_CIPHER_get_name :: string
  SSL_CIPHER_get_bits :: "int \<times> int"

text \<open>
  The configuration parameters of \<^verbatim>\<open>mail_params.h\<close> that this file reads, and the
  constants of \<^verbatim>\<open>tls_mgr.h\<close>, whose values are not part of this file.
\<close>

record params =
  var_smtp_tls_loglevel :: int
  var_tls_daemon_rand_bytes :: int
  var_smtp_tls_cipherlist :: string
  var_smtp_tls_CAfile :: string
  var_smtp_tls_CApath :: string
  var_smtp_tls_cert_file :: string
  var_smtp_tls_key_file :: string
  var_smtp_tls_dcert_file :: string
  var_smtp_tls_dkey_file :: string
  var_smtp_tls_scache_timeout :: int
  TLS_MGR_STAT_OK :: int
  TLS_MGR_SCACHE_CLIENT :: int

text \<open>The file-level and global variables.\<close>

record globals =
  tls_client_cache :: int
  TLScontext_index :: int

text \<open>What the calls made by \<^verbatim>\<open>tls_client_init\<close> return.\<close>

record init_env =
  tls_ext_seed_init :: int
  SSL_CTX_new_res :: "ssl_ctx option"
  tls_bug_bits :: int
  SSL_CTX_set_cipher_list_res :: int
  tls_set_ca_certificate_info_res :: int
  tls_set_my_certificate_key_info_res :: int
  tls_mgr_policy_res :: "int \<times> int"
  SSL_get_ex_new_index_res :: int

text \<open>
  What the calls made by \<^verbatim>\<open>tls_client_start\<close> return. The handshake is a black box
  whose outcome may depend on the session that was loaded into the connection before.
\<close>

record start_env =
  tls_alloc_context :: TLScontext
  SSL_new_res :: "ssl option"
  SSL_set_ex_data_res :: int
  BIO_new_bio_pair_res :: "(bio \<times> bio) option"
  tls_mgr_lookup :: "int \<Rightarrow> string \<Rightarrow> int \<times> string"
  tls_session_activate :: "string \<Rightarrow> ssl_session option"
  tls_bio_connect :: "ssl_session option \<Rightarrow> handshake"

definition X509_V_OK :: int where
  "X509_V_OK = 0"

text \<open>
  The value of a \<^verbatim>\<open>long\<close> stored into an \<^verbatim>\<open>int\<close> of 32 bits: the low 32 bits, read in
  two's complement.
\<close>

definition c_int32 :: "int \<Rightarrow> int" where
  "c_int32 v = (if v mod 2 ^ 32 < 2 ^ 31 then v mod 2 ^ 32 else v mod 2 ^ 32 - 2 ^ 32)"

text \<open>The value of a C comparison or logical expression.\<close>

definition c_int :: "bool \<Rightarrow> int" where
  "c_int b = (if b then 1 else 0)"

subsection \<open>\<^verbatim>\<open>load_clnt_session\<close> and \<^verbatim>\<open>uncache_session\<close>\<close>

text \<open>
  \<^verbatim>\<open>
  static SSL_SESSION *load_clnt_session(const char *cache_id)
  {
      SSL_SESSION *session = 0;
      VSTRING *session_data = vstring_alloc(2048);

      if (var_smtp_tls_loglevel >= 3)
          msg_info("looking for session %s in client cache", cache_id);
      if (tls_mgr_lookup(tls_client_cache, cache_id,
                         session_data) == TLS_MGR_STAT_OK) {
          session = tls_session_activate(STR(session_data), LEN(session_data));
          if (session) {
              if (var_smtp_tls_loglevel >= 3)
                  msg_info("reloaded session %s from client cache", cache_id);
          }
      }
      vstring_free(session_data);
      return (session);
  }
  \<close>
\<close>

definition load_clnt_session ::
  "params \<Rightarrow> start_env \<Rightarrow> globals \<Rightarrow> string \<Rightarrow> ssl_session option \<times> event list" where
  "load_clnt_session p e g cache_id =
     (let t0 = (if var_smtp_tls_loglevel p \<ge> 3
                then [Msg_info ''looking for session %s in client cache'' [S cache_id]]
                else []);
          t1 = t0 @ [Tls_mgr_lookup (tls_client_cache g) cache_id];
          (status, session_data) = tls_mgr_lookup e (tls_client_cache g) cache_id
      in if status = TLS_MGR_STAT_OK p
         then (case tls_session_activate e session_data of
                 None \<Rightarrow> (None, t1 @ [Tls_session_activate session_data])
               | Some session \<Rightarrow>
                   (Some session,
                    t1 @ [Tls_session_activate session_data]
                    @ (if var_smtp_tls_loglevel p \<ge> 3
                       then [Msg_info ''reloaded session %s from client cache'' [S cache_id]]
                       else [])))
         else (None, t1))"

text \<open>
  \<^verbatim>\<open>
  static void uncache_session(TLScontext_t *TLScontext)
  {
      if (TLScontext->serverid == 0)
          return;
      if (var_smtp_tls_loglevel >= 3)
          msg_info("remove session %s from client cache", TLScontext->serverid);
      tls_mgr_delete(tls_client_cache, TLScontext->serverid);
  }
  \<close>
\<close>

definition uncache_session :: "params \<Rightarrow> globals \<Rightarrow> TLScontext \<Rightarrow> event list" where
  "uncache_session p g ctx =
     (case serverid ctx of
        None \<Rightarrow> []
      | Some sid \<Rightarrow>
          (if var_smtp_tls_loglevel p \<ge> 3
           then [Msg_info ''remove session %s from client cache'' [S sid]]
           else [])
          @ [Tls_mgr_delete (tls_client_cache g) sid])"

subsection \<open>\<^verbatim>\<open>tls_client_init\<close>\<close>

text \<open>
  The function returns the engine context or the null pointer; it assigns the file-level
  \<^verbatim>\<open>tls_client_cache\<close> inside the condition of its last \<^verbatim>\<open>if\<close> (only when
  \<^verbatim>\<open>tls_mgr_policy\<close> reports \<^verbatim>\<open>TLS_MGR_STAT_OK\<close>) and the global \<^verbatim>\<open>TLScontext_index\<close>
  when that is still negative. Its local \<^verbatim>\<open>off\<close> is an \<^verbatim>\<open>int\<close>, so
  \<^verbatim>\<open>off |= tls_bug_bits()\<close> keeps the low 32 bits of the \<^verbatim>\<open>long\<close> it computes. The steps are the source's, in its order; the part that
  runs once the context exists is \<open>tls_client_init_ctx\<close>.
\<close>

definition tls_client_init_ctx ::
  "params \<Rightarrow> init_env \<Rightarrow> globals \<Rightarrow> ssl_ctx \<Rightarrow> event list
     \<Rightarrow> ssl_ctx option \<times> globals \<times> event list" where
  "tls_client_init_ctx p e g client_ctx t0 =
     (let off = c_int32 ((0 :: int) OR tls_bug_bits e);
          t1 = t0 @ [SSL_CTX_set_options client_ctx off]
               @ (if var_smtp_tls_loglevel p \<ge> 2
                  then [SSL_CTX_set_info_callback client_ctx] else [])
      in if c_at (var_smtp_tls_cipherlist p) 0 \<noteq> NUL
            \<and> SSL_CTX_set_cipher_list_res e = 0
         then (None, g,
               t1 @ [SSL_CTX_set_cipher_list client_ctx (var_smtp_tls_cipherlist p),
                     Tls_print_errors, SSL_CTX_free client_ctx])
         else
           let t2 = t1 @ (if c_at (var_smtp_tls_cipherlist p) 0 \<noteq> NUL
                          then [SSL_CTX_set_cipher_list client_ctx (var_smtp_tls_cipherlist p)]
                          else [])
                    @ [Tls_set_ca_certificate_info client_ctx
                         (var_smtp_tls_CAfile p) (var_smtp_tls_CApath p)]
           in if tls_set_ca_certificate_info_res e < 0
              then (None, g, t2 @ [SSL_CTX_free client_ctx])
              else
                let have_cert = (c_at (var_smtp_tls_cert_file p) 0 \<noteq> NUL
                                 \<or> c_at (var_smtp_tls_dcert_file p) 0 \<noteq> NUL);
                    t3 = t2 @ (if have_cert
                               then [Tls_set_my_certificate_key_info client_ctx
                                       (var_smtp_tls_cert_file p) (var_smtp_tls_key_file p)
                                       (var_smtp_tls_dcert_file p) (var_smtp_tls_dkey_file p)]
                               else [])
                in if have_cert \<and> tls_set_my_certificate_key_info_res e < 0
                   then (None, g, t3 @ [SSL_CTX_free client_ctx])
                   else
                     let t4 = t3 @ [SSL_CTX_set_tmp_rsa_callback client_ctx,
                                    SSL_CTX_set_verify client_ctx,
                                    SSL_CTX_set_timeout client_ctx
                                      (var_smtp_tls_scache_timeout p),
                                    Tls_mgr_policy];
                         (status, cache_types) = tls_mgr_policy_res e;
                         g1 = (if status = TLS_MGR_STAT_OK p
                               then g\<lparr>tls_client_cache :=
                                        cache_types AND TLS_MGR_SCACHE_CLIENT p\<rparr>
                               else g);
                         t5 = t4 @ (if status = TLS_MGR_STAT_OK p \<and> tls_client_cache g1 \<noteq> 0
                                    then [SSL_CTX_set_session_cache_mode client_ctx,
                                          SSL_CTX_sess_set_new_cb client_ctx]
                                    else [])
                     in if TLScontext_index g1 < 0
                        then (Some client_ctx,
                              g1\<lparr>TLScontext_index := SSL_get_ex_new_index_res e\<rparr>,
                              t5 @ [SSL_get_ex_new_index])
                        else (Some client_ctx, g1, t5))"

definition tls_client_init ::
  "params \<Rightarrow> init_env \<Rightarrow> globals \<Rightarrow> int \<Rightarrow> ssl_ctx option \<times> globals \<times> event list" where
  "tls_client_init p e g unused_verifydepth =
     (let t0 = (if var_smtp_tls_loglevel p \<ge> 2
                then [Msg_info ''initializing the client-side TLS engine'' []] else [])
               @ [Tls_check_version, SSL_load_error_strings, OpenSSL_add_ssl_algorithms,
                  Tls_ext_seed (var_tls_daemon_rand_bytes p)]
      in if tls_ext_seed_init e < 0
         then (None, g,
               t0 @ [Msg_warn ''no entropy for TLS key generation: disabling TLS support'' []])
         else
           let t1 = t0 @ [Tls_int_seed, SSL_CTX_new]
           in case SSL_CTX_new_res e of
                None \<Rightarrow> (None, g, t1 @ [Tls_print_errors])
              | Some client_ctx \<Rightarrow> tls_client_init_ctx p e g client_ctx t1)"

subsection \<open>\<^verbatim>\<open>verify_extract_peer\<close>\<close>

text \<open>
  The loop over the entries of the subject alternative name extension:
  \<^verbatim>\<open>
  for (i = 0, r = sk_GENERAL_NAME_num(gens); i < r; ++i) {
      const GENERAL_NAME *gn = sk_GENERAL_NAME_value(gens, i);

      if (gn->type == GEN_DNS) {
          dNSName_found++;
          if ((hostname_matched =
               match_hostname((char *) gn->d.ia5->data, peername)))
              break;
      }
  }
  \<close>
  The state of the loop is the pair of the locals \<^verbatim>\<open>hostname_matched\<close> and
  \<^verbatim>\<open>dNSName_found\<close>. The counter is an \<^verbatim>\<open>int\<close> in C; it counts entries of one
  certificate, far below \<open>2 ^ 31\<close>, and is a natural number here.
\<close>

fun san_loop :: "general_name list \<Rightarrow> string \<Rightarrow> int \<times> nat \<Rightarrow> int \<times> nat" where
  "san_loop [] peername (matched, dNSName_found) = (matched, dNSName_found)"
| "san_loop (gn # gens) peername (matched, dNSName_found) =
     (if gn_type gn = GEN_DNS
      then (if match_hostname (gn_data gn) peername
            then (c_int True, dNSName_found + 1)
            else san_loop gens peername (c_int False, dNSName_found + 1))
      else san_loop gens peername (matched, dNSName_found))"

text \<open>
  The block that runs when the peer name is to be verified:
  \<^verbatim>\<open>
  gens = X509_get_ext_d2i(peercert, NID_subject_alt_name, 0, 0);
  if (gens) {
      for (...) { ... }
      sk_GENERAL_NAME_free(gens);
  }
  \<close>
  It starts from \<^verbatim>\<open>hostname_matched = 0\<close> and \<^verbatim>\<open>dNSName_found = 0\<close> and yields the two
  locals and its trace.
\<close>

definition verify_dNSNames :: "string \<Rightarrow> x509 \<Rightarrow> (int \<times> nat) \<times> event list" where
  "verify_dNSNames peername peercert =
     (case subject_alt_name peercert of
        None \<Rightarrow> ((0, 0), [X509_get_ext_d2i])
      | Some gens \<Rightarrow>
          (san_loop gens peername (0, 0), [X509_get_ext_d2i, Sk_GENERAL_NAME_free]))"

text \<open>
  The check of the CommonName, with \<open>cn\<close> the string in \<^verbatim>\<open>TLScontext->peer_CN\<close> and
  \<open>matched\<close> the value of \<^verbatim>\<open>hostname_matched\<close> so far:
  \<^verbatim>\<open>
  if (TLScontext->peer_CN[0] != '\0') {
      hostname_matched = match_hostname(TLScontext->peer_CN, peername);
      if (!hostname_matched)
          msg_info("certificate peer name verification failed "
                   "for %s: CommonName mis-match: %s",
                   peername, TLScontext->peer_CN);
  }
  \<close>
\<close>

definition verify_CommonName :: "string \<Rightarrow> string \<Rightarrow> int \<Rightarrow> int \<times> event list" where
  "verify_CommonName peername cn matched =
     (if c_at cn 0 \<noteq> NUL
      then (c_int (match_hostname cn peername),
            (if \<not> match_hostname cn peername
             then [Msg_info (''certificate peer name verification failed ''
                             @ ''for %s: CommonName mis-match: %s'')
                     [S peername, S cn]]
             else []))
      else (matched, []))"

text \<open>
  The closing log message:
  \<^verbatim>\<open>
  if (var_smtp_tls_loglevel >= 1) {
      if (TLScontext->peer_verified
          && (!TLScontext->enforce_CN || TLScontext->hostname_matched))
          msg_info("Verified: subject_CN=%s, issuer=%s",
                   TLScontext->peer_CN, TLScontext->issuer_CN);
      else
          msg_info("Unverified: subject_CN=%s, issuer=%s",
                   TLScontext->peer_CN, TLScontext->issuer_CN);
  }
  \<close>
  The two strings are not null at this point; a null pointer is shown as the empty string.
\<close>

definition str_of :: "string option \<Rightarrow> string" where
  "str_of s = (case s of None \<Rightarrow> [] | Some cs \<Rightarrow> cs)"

definition log_verified :: "params \<Rightarrow> TLScontext \<Rightarrow> event list" where
  "log_verified p ctx =
     (if var_smtp_tls_loglevel p \<ge> 1
      then (if peer_verified ctx \<noteq> 0 \<and> (enforce_CN ctx = 0 \<or> hostname_matched ctx \<noteq> 0)
            then [Msg_info ''Verified: subject_CN=%s, issuer=%s''
                    [S (str_of (peer_CN ctx)), S (str_of (issuer_CN ctx))]]
            else [Msg_info ''Unverified: subject_CN=%s, issuer=%s''
                    [S (str_of (peer_CN ctx)), S (str_of (issuer_CN ctx))]])
      else [])"

text \<open>
  \<^verbatim>\<open>verify_extract_peer(peername, peercert, TLScontext)\<close>:
  \<^verbatim>\<open>
  TLScontext->peer_verified =
      (SSL_get_verify_result(TLScontext->con) == X509_V_OK);
  verify_peername =
      (TLScontext->enforce_CN != 0 && TLScontext->peer_verified != 0);
  if (verify_peername) { ... dNSNames ... }
  if (dNSName_found) {
      if (!hostname_matched)
          msg_info("certificate peer name verification failed for "
                   "%s: %d dNSNames in certificate found, "
                   "but none match", peername, dNSName_found);
  }
  if ((TLScontext->peer_CN = tls_peer_CN(peercert)) == 0)
      TLScontext->peer_CN = mystrdup("");
  if ((TLScontext->issuer_CN = tls_issuer_CN(peercert)) == 0)
      TLScontext->issuer_CN = mystrdup("");
  if (!dNSName_found && verify_peername) { ... CommonName ... }
  TLScontext->hostname_matched = hostname_matched;
  ... closing log message ...
  \<close>
  The verification result of the connection, \<^verbatim>\<open>SSL_get_verify_result(TLScontext->con)\<close>,
  is the argument \<open>verify_result\<close>. The function returns the updated context, the trace,
  and the final value of its local \<^verbatim>\<open>dNSName_found\<close> (which the source reports in a log
  message only).
\<close>

definition verify_extract_peer ::
  "params \<Rightarrow> int \<Rightarrow> string \<Rightarrow> x509 \<Rightarrow> TLScontext \<Rightarrow> TLScontext \<times> event list \<times> nat" where
  "verify_extract_peer p verify_result peername peercert ctx =
     (let ctx1 = ctx\<lparr>peer_verified := c_int (verify_result = X509_V_OK)\<rparr>;
          verify_peername = (enforce_CN ctx1 \<noteq> 0 \<and> peer_verified ctx1 \<noteq> 0);
          ((matched, dNSName_found), t1) =
            (if verify_peername then verify_dNSNames peername peercert else ((0, 0), []));
          t2 = (if dNSName_found \<noteq> 0 \<and> matched = 0
                then [Msg_info (''certificate peer name verification failed for ''
                                @ ''%s: %d dNSNames in certificate found, ''
                                @ ''but none match'')
                        [S peername, I (int dNSName_found)]]
                else []);
          ctx2 = ctx1\<lparr>peer_CN := Some (case tls_peer_CN peercert of
                                          None \<Rightarrow> [] | Some cn \<Rightarrow> cn)\<rparr>;
          ctx3 = ctx2\<lparr>issuer_CN := Some (case tls_issuer_CN peercert of
                                            None \<Rightarrow> [] | Some cn \<Rightarrow> cn)\<rparr>;
          (matched2, t3) =
            (if dNSName_found = 0 \<and> verify_peername
             then verify_CommonName peername (str_of (peer_CN ctx3)) matched
             else (matched, []));
          ctx4 = ctx3\<lparr>hostname_matched := matched2\<rparr>
      in (ctx4, t1 @ t2 @ t3 @ log_verified p ctx4, dNSName_found))"

text \<open>
  The rule for \<^verbatim>\<open>hostname_matched\<close> in the words of the specification: the host name is
  checked only when a match is enforced over a verified chain; the DNS entries of the
  subject alternative name decide when there is at least one, the CommonName otherwise.
\<close>

definition dns_names :: "x509 \<Rightarrow> string list" where
  "dns_names peercert =
     (case subject_alt_name peercert of
        None \<Rightarrow> []
      | Some gens \<Rightarrow> map gn_data (filter (\<lambda>gn. gn_type gn = GEN_DNS) gens))"

definition common_name :: "x509 \<Rightarrow> string" where
  "common_name peercert = (case tls_peer_CN peercert of None \<Rightarrow> [] | Some cn \<Rightarrow> cn)"

definition spec_hostname_matched :: "int \<Rightarrow> int \<Rightarrow> string \<Rightarrow> x509 \<Rightarrow> bool" where
  "spec_hostname_matched enforce verify_result peername peercert =
     (enforce \<noteq> 0 \<and> verify_result = X509_V_OK
      \<and> (if dns_names peercert \<noteq> []
         then list_ex (\<lambda>d. match_hostname d peername) (dns_names peercert)
         else c_str (common_name peercert) \<noteq> []
              \<and> match_hostname (common_name peercert) peername))"

text \<open>
  The number of DNS entries the loop examines: all of them without a match, those up to
  and including the first match otherwise.
\<close>

definition dns_examined :: "string \<Rightarrow> string list \<Rightarrow> nat" where
  "dns_examined peername ds =
     (if list_ex (\<lambda>d. match_hostname d peername) ds
      then length (takeWhile (\<lambda>d. \<not> match_hostname d peername) ds) + 1
      else length ds)"

subsection \<open>\<^verbatim>\<open>tls_client_stop\<close>\<close>

text \<open>
  Modelled from the spec: \<^verbatim>\<open>tls_client_stop\<close> is declared in \<^verbatim>\<open>tls.h\<close> and defined
  outside this file. The specification's teardown: on a clean teardown a graceful
  close-notification is attempted; the session handle, the network-facing buffer end and
  all owned strings are always released, and the stream gets its original read and write
  path back; on a failure teardown the close-notification is skipped. The header comment
  of \<^verbatim>\<open>tls_client.c\<close> says the same: the function sends the "close notify" alert via
  \<^verbatim>\<open>SSL_shutdown()\<close> and resets all connection specific TLS data; if the failure flag is
  set, no \<^verbatim>\<open>SSL_shutdown()\<close> handshake is performed.
\<close>

definition tls_client_stop ::
  "ssl_ctx \<Rightarrow> vstream \<Rightarrow> int \<Rightarrow> int \<Rightarrow> TLScontext \<Rightarrow> event list" where
  "tls_client_stop client_ctx stream timeout failure ctx =
     (if failure = 0 then [SSL_shutdown] else [])
     @ [Tls_free_context, Tls_stream_stop stream]"

subsection \<open>\<^verbatim>\<open>tls_client_start\<close>\<close>

text \<open>
  \<^verbatim>\<open>tls_client_start(client_ctx, stream, timeout, enforce_peername, peername, serverid)\<close>
  returns the new \<^verbatim>\<open>TLScontext\<close> or the null pointer. \<^verbatim>\<open>peername\<close> and \<^verbatim>\<open>serverid\<close>
  are C strings (\<^verbatim>\<open>mystrdup\<close> does not accept a null pointer), so the \<^verbatim>\<open>serverid\<close> of
  the context is never null here. The stream is known by its descriptor.

  The source is one function; the embedding names its three parts. The part that runs
  after \<^verbatim>\<open>tls_bio_connect\<close> returned a positive status:
  \<^verbatim>\<open>
  tls_stream_start(stream, TLScontext);
  if (var_smtp_tls_loglevel >= 3 && SSL_session_reused(TLScontext->con))
      msg_info("Reusing old session");
  if (var_smtp_tls_loglevel < 4)
      BIO_set_callback(SSL_get_rbio(TLScontext->con), 0);
  TLScontext->session_reused = SSL_session_reused(TLScontext->con);
  if ((peercert = SSL_get_peer_certificate(TLScontext->con)) != 0) {
      verify_extract_peer(peername, peercert, TLScontext);
      X509_free(peercert);
  }
  if (enforce_peername && !TLScontext->hostname_matched) {
      msg_info("Server certificate could not be verified for %s:"
               " hostname mismatch", peername);
      tls_client_stop(client_ctx, stream, timeout, 0, TLScontext);
      return (0);
  }
  TLScontext->protocol = SSL_get_version(TLScontext->con);
  cipher = SSL_get_current_cipher(TLScontext->con);
  TLScontext->cipher_name = SSL_CIPHER_get_name(cipher);
  TLScontext->cipher_usebits = SSL_CIPHER_get_bits(cipher,
                                           &(TLScontext->cipher_algbits));
  if (var_smtp_tls_loglevel >= 1)
      msg_info("TLS connection established to %s: %s with cipher %s"
               " (%d/%d bits)", peername, ...);
  tls_int_seed();
  return (TLScontext);
  \<close>
\<close>

definition tls_client_start_connected ::
  "params \<Rightarrow> ssl_ctx \<Rightarrow> vstream \<Rightarrow> int \<Rightarrow> int \<Rightarrow> string \<Rightarrow> handshake \<Rightarrow> TLScontext
     \<Rightarrow> event list \<Rightarrow> TLScontext option \<times> event list" where
  "tls_client_start_connected p client_ctx stream timeout enforce_peername peername hs ctx t0 =
     (let t1 = t0 @ [Tls_stream_start stream]
               @ (if var_smtp_tls_loglevel p \<ge> 3 \<and> SSL_session_reused hs \<noteq> 0
                  then [Msg_info ''Reusing old session'' []] else [])
               @ (if var_smtp_tls_loglevel p < 4 then [BIO_set_callback ''0''] else []);
          ctx1 = ctx\<lparr>session_reused := SSL_session_reused hs\<rparr>;
          (ctx2, t2) =
            (case SSL_get_peer_certificate hs of
               None \<Rightarrow> (ctx1, t1)
             | Some peercert \<Rightarrow>
                 (let (c, t, n) = verify_extract_peer p (SSL_get_verify_result hs)
                                    peername peercert ctx1
                  in (c, t1 @ t @ [X509_free])))
      in if enforce_peername \<noteq> 0 \<and> hostname_matched ctx2 = 0
         then (None,
               t2 @ [Msg_info (''Server certificate could not be verified for %s:''
                               @ '' hostname mismatch'') [S peername]]
               @ tls_client_stop client_ctx stream timeout 0 ctx2)
         else
           let ctx3 = ctx2\<lparr>protocol := Some (SSL_get_version hs),
                            cipher_name := Some (SSL_CIPHER_get_name hs),
                            cipher_usebits := fst (SSL_CIPHER_get_bits hs),
                            cipher_algbits := snd (SSL_CIPHER_get_bits hs)\<rparr>
           in (Some ctx3,
               t2 @ (if var_smtp_tls_loglevel p \<ge> 1
                     then [Msg_info (''TLS connection established to %s: %s with cipher %s''
                                     @ '' (%d/%d bits)'')
                             [S peername, S (SSL_get_version hs),
                              S (SSL_CIPHER_get_name hs),
                              I (fst (SSL_CIPHER_get_bits hs)),
                              I (snd (SSL_CIPHER_get_bits hs))]]
                     else [])
               @ [Tls_int_seed]))"

text \<open>
  The look-up in the session cache:
  \<^verbatim>\<open>
  if (tls_client_cache) {
      session = load_clnt_session(serverid);
      if (session) {
          SSL_set_session(TLScontext->con, session);
          SSL_SESSION_free(session);
      }
  }
  \<close>
  The result is the session that was loaded into the connection \<open>c\<close>, if any. The block
  under \<^verbatim>\<open>OPENSSL_VERSION_NUMBER < 0x00906011L\<close> copies the verification result of the
  loaded session into the connection before the handshake; what the connection reports
  after the handshake is part of the handshake's outcome here.
\<close>

definition prime_session ::
  "params \<Rightarrow> start_env \<Rightarrow> globals \<Rightarrow> ssl \<Rightarrow> string \<Rightarrow> ssl_session option \<times> event list" where
  "prime_session p e g c serverid' =
     (if tls_client_cache g \<noteq> 0
      then (case load_clnt_session p e g serverid' of
              (None, t) \<Rightarrow> (None, t)
            | (Some session, t) \<Rightarrow>
                (Some session, t @ [SSL_set_session c session, SSL_SESSION_free session]))
      else (None, []))"

text \<open>
  From there to the handshake (\<open>ib\<close> is the internal end of the buffer pair):
  \<^verbatim>\<open>
  tls_int_seed();
  (void) tls_ext_seed(var_tls_daemon_rand_bytes);
  SSL_set_connect_state(TLScontext->con);
  SSL_set_bio(TLScontext->con, TLScontext->internal_bio, TLScontext->internal_bio);
  if (var_smtp_tls_loglevel >= 3)
      BIO_set_callback(SSL_get_rbio(TLScontext->con), tls_bio_dump_cb);
  sts = tls_bio_connect(vstream_fileno(stream), timeout, TLScontext);
  if (sts <= 0) {
      msg_info("SSL_connect error to %s: %d", peername, sts);
      tls_print_errors();
      uncache_session(TLScontext);
      tls_free_context(TLScontext);
      return (0);
  }
  \<close>
\<close>

definition tls_client_start_handshake ::
  "params \<Rightarrow> start_env \<Rightarrow> globals \<Rightarrow> ssl_ctx \<Rightarrow> vstream \<Rightarrow> int \<Rightarrow> int \<Rightarrow> string \<Rightarrow> string
     \<Rightarrow> ssl \<Rightarrow> bio \<Rightarrow> TLScontext \<Rightarrow> event list \<Rightarrow> TLScontext option \<times> event list" where
  "tls_client_start_handshake p e g client_ctx stream timeout enforce_peername peername
       serverid' c ib ctx t0 =
     (let (session, t) = prime_session p e g c serverid';
          t2 = t0 @ t
               @ [Tls_int_seed, Tls_ext_seed (var_tls_daemon_rand_bytes p),
                  SSL_set_connect_state c, SSL_set_bio c ib]
               @ (if var_smtp_tls_loglevel p \<ge> 3
                  then [BIO_set_callback ''tls_bio_dump_cb''] else [])
               @ [Tls_bio_connect stream timeout];
          hs = tls_bio_connect e session
      in if sts hs \<le> 0
         then (None,
               t2 @ [Msg_info ''SSL_connect error to %s: %d'' [S peername, I (sts hs)],
                     Tls_print_errors]
               @ uncache_session p g ctx
               @ [Tls_free_context])
         else tls_client_start_connected p client_ctx stream timeout enforce_peername
                peername hs ctx t2)"

text \<open>
  The beginning, up to the buffer pair:
  \<^verbatim>\<open>
  if (var_smtp_tls_loglevel >= 1)
      msg_info("setting up TLS connection to %s", peername);
  TLScontext = tls_alloc_context(var_smtp_tls_loglevel, peername);
  TLScontext->serverid = mystrdup(serverid);
  if ((TLScontext->con = (SSL *) SSL_new(client_ctx)) == NULL) {
      msg_info("Could not allocate 'TLScontext->con' with SSL_new()");
      tls_print_errors();
      tls_free_context(TLScontext);
      return (0);
  }
  if (!SSL_set_ex_data(TLScontext->con, TLScontext_index, TLScontext)) {
      msg_info("Could not set application data for 'TLScontext->con'");
      tls_print_errors();
      tls_free_context(TLScontext);
      return (0);
  }
  if (enforce_peername) {
      TLScontext->enforce_verify_errors = 1;
      TLScontext->enforce_CN = 1;
      SSL_set_verify(TLScontext->con, SSL_VERIFY_PEER, tls_verify_certificate_callback);
  } else {
      TLScontext->enforce_verify_errors = 0;
      TLScontext->enforce_CN = 0;
  }
  TLScontext->hostname_matched = 0;
  if (!BIO_new_bio_pair(&TLScontext->internal_bio, TLS_BIO_BUFSIZE,
                        &TLScontext->network_bio, TLS_BIO_BUFSIZE)) {
      msg_info("Could not obtain BIO_pair");
      tls_print_errors();
      tls_free_context(TLScontext);
      return (0);
  }
  \<close>
\<close>

definition tls_client_start ::
  "params \<Rightarrow> start_env \<Rightarrow> globals \<Rightarrow> ssl_ctx \<Rightarrow> vstream \<Rightarrow> int \<Rightarrow> int \<Rightarrow> string \<Rightarrow> string
     \<Rightarrow> TLScontext option \<times> event list" where
  "tls_client_start p e g client_ctx stream timeout enforce_peername peername serverid' =
     (let t0 = (if var_smtp_tls_loglevel p \<ge> 1
                then [Msg_info ''setting up TLS connection to %s'' [S peername]] else [])
               @ [Tls_alloc_context (var_smtp_tls_loglevel p) peername,
                  SSL_new client_ctx];
          ctx0 = (tls_alloc_context e)\<lparr>serverid := Some serverid'\<rparr>
      in case SSL_new_res e of
           None \<Rightarrow>
             (None,
              t0 @ [Msg_info ''Could not allocate 'TLScontext->con' with SSL_new()'' [],
                    Tls_print_errors, Tls_free_context])
         | Some c \<Rightarrow>
             let ctx1 = ctx0\<lparr>con := Some c\<rparr>;
                 t1 = t0 @ [SSL_set_ex_data c]
             in if SSL_set_ex_data_res e = 0
                then (None,
                      t1 @ [Msg_info (''Could not set application data for 'TLScontext->con''
                                      @ [CHR 0x27]) [],
                            Tls_print_errors, Tls_free_context])
                else
                  let ctx2 = (if enforce_peername \<noteq> 0
                              then ctx1\<lparr>enforce_verify_errors := 1, enforce_CN := 1\<rparr>
                              else ctx1\<lparr>enforce_verify_errors := 0, enforce_CN := 0\<rparr>);
                      ctx3 = ctx2\<lparr>hostname_matched := 0\<rparr>;
                      t2 = t1 @ (if enforce_peername \<noteq> 0 then [SSL_set_verify c] else [])
                           @ [BIO_new_bio_pair]
                  in case BIO_new_bio_pair_res e of
                       None \<Rightarrow>
                         (None,
                          t2 @ [Msg_info ''Could not obtain BIO_pair'' [],
                                Tls_print_errors, Tls_free_context])
                     | Some (ib, nb) \<Rightarrow>
                         tls_client_start_handshake p e g client_ctx stream timeout
                           enforce_peername peername serverid' c ib
                           (ctx3\<lparr>internal_bio := Some ib, network_bio := Some nb\<rparr>) t2)"

subsection \<open>Reading a trace\<close>

text \<open>The requests to the session cache that delete an entry.\<close>

fun is_cache_delete :: "event \<Rightarrow> bool" where
  "is_cache_delete (Call name args) = (name = ''tls_mgr_delete'')"
| "is_cache_delete (Msg_info fmt args) = False"
| "is_cache_delete (Msg_warn fmt args) = False"

definition cache_deletes :: "event list \<Rightarrow> nat" where
  "cache_deletes t = length (filter is_cache_delete t)"

subsection \<open>Example inputs\<close>

definition ex_params :: params where
  "ex_params =
     \<lparr>var_smtp_tls_loglevel = 1, var_tls_daemon_rand_bytes = 32,
      var_smtp_tls_cipherlist = [], var_smtp_tls_CAfile = ''ca.pem'',
      var_smtp_tls_CApath = [], var_smtp_tls_cert_file = [], var_smtp_tls_key_file = [],
      var_smtp_tls_dcert_file = [], var_smtp_tls_dkey_file = [],
      var_smtp_tls_scache_timeout = 3600, TLS_MGR_STAT_OK = 0, TLS_MGR_SCACHE_CLIENT = 1\<rparr>"

definition ex_context :: TLScontext where
  "ex_context =
     \<lparr>serverid = None, con = None, internal_bio = None, network_bio = None,
      enforce_verify_errors = 0, enforce_CN = 0, hostname_matched = 0, peer_verified = 0,
      peer_CN = None, issuer_CN = None, session_reused = 0, protocol = None,
      cipher_name = None, cipher_usebits = 0, cipher_algbits = 0\<rparr>"

text \<open>
  A certificate with one DNS entry for another host and a CommonName for this one, a
  certificate without the extension and with a wild-card CommonName, and a certificate
  from which no name can be extracted.
\<close>

definition ex_cert_san :: x509 where
  "ex_cert_san =
     \<lparr>subject_alt_name = Some [\<lparr>gn_type = GEN_EMAIL, gn_data = ''postmaster@example.com''\<rparr>,
                               \<lparr>gn_type = GEN_DNS, gn_data = ''wrong.example.com''\<rparr>],
      tls_peer_CN = Some ''mail.example.com'', tls_issuer_CN = Some ''Example CA''\<rparr>"

definition ex_cert_cn :: x509 where
  "ex_cert_cn =
     \<lparr>subject_alt_name = None, tls_peer_CN = Some ''*.example.com'',
      tls_issuer_CN = Some ''Example CA''\<rparr>"

definition ex_cert_anon :: x509 where
  "ex_cert_anon = \<lparr>subject_alt_name = None, tls_peer_CN = None, tls_issuer_CN = None\<rparr>"

definition ex_handshake :: "x509 \<Rightarrow> int \<Rightarrow> handshake" where
  "ex_handshake peercert verify_result =
     \<lparr>sts = 1, SSL_session_reused = 0, SSL_get_peer_certificate = Some peercert,
      SSL_get_verify_result = verify_result, SSL_get_version = ''TLSv1'',
      SSL_CIPHER_get_name = ''RC4-MD5'', SSL_CIPHER_get_bits = (128, 128)\<rparr>"

text \<open>
  An environment in which every allocation succeeds, the cache service does not answer
  (status \<open>-1\<close>), and the handshake has the given outcome.
\<close>

definition ex_env :: "handshake \<Rightarrow> start_env" where
  "ex_env hs =
     \<lparr>tls_alloc_context = ex_context, SSL_new_res = Some 1, SSL_set_ex_data_res = 1,
      BIO_new_bio_pair_res = Some (2, 3), tls_mgr_lookup = (\<lambda>cache cache_id. (- 1, [])),
      tls_session_activate = (\<lambda>session_data. None), tls_bio_connect = (\<lambda>session. hs)\<rparr>"

definition ex_init_env :: "int \<Rightarrow> init_env" where
  "ex_init_env seed_status =
     \<lparr>tls_ext_seed_init = seed_status, SSL_CTX_new_res = Some 9, tls_bug_bits = 0,
      SSL_CTX_set_cipher_list_res = 1, tls_set_ca_certificate_info_res = 0,
      tls_set_my_certificate_key_info_res = 0, tls_mgr_policy_res = (0, 3),
      SSL_get_ex_new_index_res = 0\<rparr>"

definition ex_globals :: "int \<Rightarrow> globals" where
  "ex_globals cache = \<lparr>tls_client_cache = cache, TLScontext_index = 0\<rparr>"

text \<open>A handshake that ran into its timeout.\<close>

definition ex_failed :: handshake where
  "ex_failed = (ex_handshake ex_cert_cn X509_V_OK)\<lparr>sts := - 1\<rparr>"

text \<open>
  The same environment with a cache that returns a session, and with a cache that returns
  data from which no session can be activated.
\<close>

definition ex_env_cached :: "handshake \<Rightarrow> start_env" where
  "ex_env_cached hs =
     (ex_env hs)\<lparr>tls_mgr_lookup := (\<lambda>cache cache_id. (0, ''session'')),
                tls_session_activate := (\<lambda>session_data. Some 4)\<rparr>"

definition ex_env_corrupt :: "handshake \<Rightarrow> start_env" where
  "ex_env_corrupt hs =
     (ex_env hs)\<lparr>tls_mgr_lookup := (\<lambda>cache cache_id. (0, ''garbage''))\<rparr>"

section \<open>Properties\<close>

subsection \<open>The host name matcher\<close>

lemma of_char_tolower:
  "(of_char (tolower c) :: nat) =
     (if 65 \<le> (of_char c :: nat) \<and> (of_char c :: nat) \<le> 90 then of_char c + 32 else of_char c)"
  by (simp add: tolower_def)

lemma of_char_NUL_iff: "(of_char c :: nat) = 0 \<longleftrightarrow> c = NUL"
proof -
  have "(of_char c :: nat) = of_char NUL \<longleftrightarrow> c = NUL"
    by (rule of_char_eq_iff)
  then show ?thesis by (simp add: NUL_def)
qed

lemma of_char_tolower_eq0: "int (of_char (tolower c)) = 0 \<longleftrightarrow> c = NUL"
  using of_char_NUL_iff[of c] by (auto simp add: of_char_tolower)

lemma tolower_NUL_iff: "tolower c = NUL \<longleftrightarrow> c = NUL"
  using of_char_NUL_iff[of "tolower c"] of_char_NUL_iff[of c] by (simp add: of_char_tolower split: if_splits)

lemma tolower_diff: "int (of_char (tolower x)) - int (of_char (tolower y)) = 0 \<longleftrightarrow> tolower x = tolower y"
  by simp

lemma strcasecmp_eq0: "strcasecmp a b = 0 \<longleftrightarrow> caseless_eq (c_str a) (c_str b)"
proof (induction a b rule: strcasecmp.induct)
  case 1
  then show ?case by (simp add: caseless_eq_def c_str_def)
next
  case (2 y ys)
  then show ?case using of_char_tolower_eq0[of y] by (auto simp add: caseless_eq_def c_str_def)
next
  case (3 x xs)
  then show ?case using of_char_tolower_eq0[of x] by (auto simp add: caseless_eq_def c_str_def)
next
  case (4 x xs y ys)
  then show ?case using tolower_NUL_iff[of x] tolower_NUL_iff[of y]
    by (auto simp add: caseless_eq_def c_str_def)
qed

lemma strchr_dot:
  "strchr h (CHR ''.'') =
     (if CHR ''.'' \<in> set (c_str h) then Some (dropWhile (\<lambda>c. c \<noteq> CHR ''.'') h) else None)"
  by (induction h) (auto simp add: c_str_def NUL_def)

lemma c_str_after_dot:
  "CHR ''.'' \<in> set (c_str h) \<Longrightarrow>
     c_str (tl (dropWhile (\<lambda>c. c \<noteq> CHR ''.'') h)) = after_first_dot (c_str h)"
  by (induction h) (auto simp add: c_str_def after_first_dot_def NUL_def)

lemma pattern_head:
  "(c_at p 0 = CHR ''*'' \<and> c_at p 1 = CHR ''.'' \<and> c_at p 2 \<noteq> NUL) \<longleftrightarrow>
     (take 2 (c_str p) = ''*.'' \<and> drop 2 (c_str p) \<noteq> [])"
proof (cases p)
  case Nil
  then show ?thesis by (simp add: c_at_def c_str_def NUL_def)
next
  case (Cons a q)
  note p = this
  show ?thesis
  proof (cases q)
    case Nil
    then show ?thesis using p by (auto simp add: c_at_def c_str_def NUL_def)
  next
    case (Cons b r)
    then show ?thesis using p by (cases r) (auto simp add: c_at_def c_str_def NUL_def)
  qed
qed

lemma c_str_drop2:
  "take 2 (c_str p) = ''*.'' \<Longrightarrow> c_str (drop 2 p) = drop 2 (c_str p)"
proof (cases p)
  case Nil
  then show ?thesis by (simp add: c_str_def)
next
  case (Cons a q)
  assume h: "take 2 (c_str p) = ''*.''"
  show ?thesis using h Cons by (cases q) (auto simp add: c_str_def split: if_splits)
qed

lemma match_hostname_refines: "match_hostname p h = spec_match (c_str p) (c_str h)"
proof -
  have eq: "caseless_eq (c_str h) (c_str p) = caseless_eq (c_str p) (c_str h)"
    by (auto simp add: caseless_eq_def)
  show ?thesis
  proof (cases "c_at p 0 = CHR ''*'' \<and> c_at p 1 = CHR ''.'' \<and> c_at p 2 \<noteq> NUL")
    case True
    then have t: "take 2 (c_str p) = ''*.''" and d: "drop 2 (c_str p) \<noteq> []"
      using pattern_head[of p] by blast+
    show ?thesis
      using True t d
      by (simp add: match_hostname_def spec_match_def eq strchr_dot strcasecmp_eq0
          c_str_after_dot c_str_drop2)
  next
    case False
    then have "\<not> (take 2 (c_str p) = ''*.'' \<and> drop 2 (c_str p) \<noteq> [])"
      using pattern_head[of p] by blast
    with False show ?thesis
      by (auto simp add: match_hostname_def spec_match_def strcasecmp_eq0 eq)
  qed
qed

lemma match_examples:
  "match_hostname ''example.com'' ''example.com''"
  "match_hostname ''*.example.com'' ''mail.example.com''"
  "\<not> match_hostname ''*.example.com'' ''example.com''"
  "\<not> match_hostname ''*.example.com'' ''a.b.example.com''"
  by code_simp+

text \<open>
  C1. \<^verbatim>\<open>match_hostname(pattern, hostname)\<close> is true exactly when the two C strings are
  equal up to case, or the pattern is \<open>*.\<close> followed by a non-empty rest, the host name
  contains a dot, and the host name after its first dot equals that rest up to case. In
  particular \<open>example.com\<close> matches itself, \<open>*.example.com\<close> matches
  \<open>mail.example.com\<close>, and \<open>*.example.com\<close> matches neither \<open>example.com\<close> nor
  \<open>a.b.example.com\<close>.
\<close>

theorem match_hostname_rule:
  "match_hostname pattern hostname = spec_match (c_str pattern) (c_str hostname)
   \<and> match_hostname ''example.com'' ''example.com''
   \<and> match_hostname ''*.example.com'' ''mail.example.com''
   \<and> \<not> match_hostname ''*.example.com'' ''example.com''
   \<and> \<not> match_hostname ''*.example.com'' ''a.b.example.com''"
  using match_hostname_refines[of pattern hostname] match_examples by blast

theorem match_hostname_rule_witness:
  "match_hostname ''*.Example.COM'' ''Mail.example.com''
   \<and> spec_match (c_str ''*.Example.COM'') (c_str ''Mail.example.com'')"
proof -
  have "match_hostname ''*.Example.COM'' ''Mail.example.com''" by code_simp
  then show ?thesis
    using match_hostname_rule[of "''*.Example.COM''" "''Mail.example.com''"] by blast
qed

subsection \<open>The peer verifier\<close>

lemma c_at0_iff: "c_at s 0 \<noteq> NUL \<longleftrightarrow> c_str s \<noteq> []"
  by (cases s) (auto simp add: c_at_def c_str_def)

lemma san_loop_eq:
  "san_loop gens pn (m, n) =
     (if list_ex (\<lambda>d. match_hostname d pn) (map gn_data (filter (\<lambda>gn. gn_type gn = GEN_DNS) gens))
      then 1
      else if filter (\<lambda>gn. gn_type gn = GEN_DNS) gens = [] then m else 0,
      n + dns_examined pn (map gn_data (filter (\<lambda>gn. gn_type gn = GEN_DNS) gens)))"
  by (induction gens arbitrary: m n) (auto simp add: dns_examined_def c_int_def)

lemma verify_dNSNames_result:
  "fst (verify_dNSNames pn cert) =
     (c_int (list_ex (\<lambda>d. match_hostname d pn) (dns_names cert)),
      dns_examined pn (dns_names cert))"
  by (simp add: verify_dNSNames_def dns_names_def san_loop_eq c_int_def dns_examined_def
      split: option.splits)

lemma verify_dNSNames_trace:
  "snd (verify_dNSNames pn cert) =
     X509_get_ext_d2i # (case subject_alt_name cert of None \<Rightarrow> [] | Some gens \<Rightarrow> [Sk_GENERAL_NAME_free])"
  by (simp add: verify_dNSNames_def split: option.splits)

lemma dns_examined_0: "dns_examined pn ds = 0 \<longleftrightarrow> ds = []"
  by (cases ds) (simp_all add: dns_examined_def)

text \<open>
  The two ways through \<^verbatim>\<open>verify_extract_peer\<close>: without and with verification of the
  peer name.
\<close>

lemma vep_unenforced:
  assumes "enforce_CN ctx = 0 \<or> vr \<noteq> X509_V_OK"
  shows "verify_extract_peer p vr pn cert ctx =
     (ctx\<lparr>peer_verified := c_int (vr = X509_V_OK), peer_CN := Some (common_name cert),
          issuer_CN := Some (str_of (tls_issuer_CN cert)), hostname_matched := 0\<rparr>,
      log_verified p (ctx\<lparr>peer_verified := c_int (vr = X509_V_OK), peer_CN := Some (common_name cert),
          issuer_CN := Some (str_of (tls_issuer_CN cert)), hostname_matched := 0\<rparr>),
      0)"
proof -
  have vp: "(enforce_CN ctx \<noteq> 0 \<and> c_int (vr = X509_V_OK) \<noteq> 0) = False"
    using assms by (auto simp add: c_int_def)
  show ?thesis
    by (simp add: verify_extract_peer_def Let_def vp common_name_def str_of_def)
qed

lemma vep_enforced:
  assumes "enforce_CN ctx \<noteq> 0" and "vr = X509_V_OK"
  shows "verify_extract_peer p vr pn cert ctx =
     (ctx\<lparr>peer_verified := 1, peer_CN := Some (common_name cert),
          issuer_CN := Some (str_of (tls_issuer_CN cert)),
          hostname_matched := c_int (spec_hostname_matched (enforce_CN ctx) vr pn cert)\<rparr>,
      snd (verify_dNSNames pn cert)
      @ (if dns_names cert \<noteq> [] \<and> \<not> list_ex (\<lambda>d. match_hostname d pn) (dns_names cert)
         then [Msg_info (''certificate peer name verification failed for ''
                                @ ''%s: %d dNSNames in certificate found, ''
                                @ ''but none match'')
                  [S pn, I (int (dns_examined pn (dns_names cert)))]]
         else [])
      @ (if dns_names cert = []
         then snd (verify_CommonName pn (common_name cert) 0) else [])
      @ log_verified p (ctx\<lparr>peer_verified := 1, peer_CN := Some (common_name cert),
          issuer_CN := Some (str_of (tls_issuer_CN cert)),
          hostname_matched := c_int (spec_hostname_matched (enforce_CN ctx) vr pn cert)\<rparr>),
      dns_examined pn (dns_names cert))"
proof -
  have vp: "(enforce_CN ctx \<noteq> 0 \<and> c_int (vr = X509_V_OK) \<noteq> 0) = True"
    using assms by (simp add: c_int_def)
  obtain m n t where d: "verify_dNSNames pn cert = ((m, n), t)"
    by (metis surj_pair)
  have mn: "m = c_int (list_ex (\<lambda>d. match_hostname d pn) (dns_names cert))"
    "n = dns_examined pn (dns_names cert)"
    using verify_dNSNames_result[of pn cert] d by simp_all
  show ?thesis
  proof (cases "dns_names cert = []")
    case True
    then have n0: "n = 0" and m0: "m = 0" using mn by (simp_all add: dns_examined_def c_int_def)
    show ?thesis
      using vp True d n0 m0 assms
      by (simp add: verify_extract_peer_def Let_def common_name_def str_of_def
          spec_hostname_matched_def verify_CommonName_def c_at0_iff c_int_def dns_examined_def)
  next
    case False
    then have n0: "n \<noteq> 0" using mn by (simp add: dns_examined_0)
    show ?thesis
      using vp False d n0 mn assms
      by (simp add: verify_extract_peer_def Let_def common_name_def str_of_def
          spec_hostname_matched_def c_int_def)
  qed
qed


lemma vep_hostname_matched:
  "hostname_matched (fst (verify_extract_peer p vr pn cert ctx)) =
     c_int (spec_hostname_matched (enforce_CN ctx) vr pn cert)"
proof (cases "enforce_CN ctx \<noteq> 0 \<and> vr = X509_V_OK")
  case True
  then show ?thesis by (simp add: vep_enforced)
next
  case False
  then have "enforce_CN ctx = 0 \<or> vr \<noteq> X509_V_OK" by blast
  then show ?thesis
    using False by (auto simp add: vep_unenforced spec_hostname_matched_def c_int_def)
qed

lemma vep_found:
  "snd (snd (verify_extract_peer p vr pn cert ctx)) =
     (if enforce_CN ctx \<noteq> 0 \<and> vr = X509_V_OK then dns_examined pn (dns_names cert) else 0)"
proof (cases "enforce_CN ctx \<noteq> 0 \<and> vr = X509_V_OK")
  case True
  then show ?thesis by (simp add: vep_enforced)
next
  case False
  then have "enforce_CN ctx = 0 \<or> vr \<noteq> X509_V_OK" by blast
  then show ?thesis using False by (auto simp add: vep_unenforced)
qed

lemma vep_names:
  "peer_CN (fst (verify_extract_peer p vr pn cert ctx)) =
     Some (case tls_peer_CN cert of None \<Rightarrow> [] | Some cn \<Rightarrow> cn)"
  "issuer_CN (fst (verify_extract_peer p vr pn cert ctx)) =
     Some (case tls_issuer_CN cert of None \<Rightarrow> [] | Some cn \<Rightarrow> cn)"
  by (simp_all add: verify_extract_peer_def Let_def case_prod_beta)

lemma vep_peer_verified:
  "peer_verified (fst (verify_extract_peer p vr pn cert ctx)) = c_int (vr = X509_V_OK)"
  by (simp add: verify_extract_peer_def Let_def case_prod_beta)

text \<open>
  C2. For a certificate with at least one DNS entry in its subject alternative name,
  \<^verbatim>\<open>hostname_matched\<close> is decided by those entries alone: it is set exactly when the check
  is enforced over a verified chain and some DNS entry matches; the entries are tried in
  order up to and including the first match; and the CommonName has no influence on the
  outcome, whatever it is. For any certificate, the CommonName can change the outcome only
  when no DNS entry was examined and the peer name is being verified.
\<close>

theorem san_precedence:
  "(dns_names peercert \<noteq> [] \<longrightarrow>
      hostname_matched (fst (verify_extract_peer p vr pn peercert ctx)) =
        c_int (enforce_CN ctx \<noteq> 0 \<and> vr = X509_V_OK
               \<and> list_ex (\<lambda>d. match_hostname d pn) (dns_names peercert))
      \<and> snd (snd (verify_extract_peer p vr pn peercert ctx)) =
          (if enforce_CN ctx \<noteq> 0 \<and> vr = X509_V_OK
           then dns_examined pn (dns_names peercert) else 0)
      \<and> hostname_matched (fst (verify_extract_peer p vr pn (peercert\<lparr>tls_peer_CN := cn\<rparr>) ctx)) =
          hostname_matched (fst (verify_extract_peer p vr pn peercert ctx)))
   \<and> (hostname_matched (fst (verify_extract_peer p vrb pnb (peercertb\<lparr>tls_peer_CN := cnb\<rparr>) ctxb)) \<noteq>
        hostname_matched (fst (verify_extract_peer p vrb pnb peercertb ctxb)) \<longrightarrow>
      snd (snd (verify_extract_peer p vrb pnb peercertb ctxb)) = 0
      \<and> enforce_CN ctxb \<noteq> 0 \<and> vrb = X509_V_OK)"
proof -
  have dns_upd: "dns_names (c\<lparr>tls_peer_CN := n\<rparr>) = dns_names c" for c n
    by (simp add: dns_names_def)
  have a: "dns_names peercert \<noteq> [] \<Longrightarrow>
      hostname_matched (fst (verify_extract_peer p vr pn peercert ctx)) =
        c_int (enforce_CN ctx \<noteq> 0 \<and> vr = X509_V_OK
               \<and> list_ex (\<lambda>d. match_hostname d pn) (dns_names peercert))"
    by (simp add: vep_hostname_matched spec_hostname_matched_def)
  have b: "dns_names peercert \<noteq> [] \<Longrightarrow>
      hostname_matched (fst (verify_extract_peer p vr pn (peercert\<lparr>tls_peer_CN := cn\<rparr>) ctx)) =
          hostname_matched (fst (verify_extract_peer p vr pn peercert ctx))"
    by (simp add: vep_hostname_matched spec_hostname_matched_def dns_upd)
  have c: "hostname_matched (fst (verify_extract_peer p vrb pnb (peercertb\<lparr>tls_peer_CN := cnb\<rparr>) ctxb)) \<noteq>
        hostname_matched (fst (verify_extract_peer p vrb pnb peercertb ctxb)) \<Longrightarrow>
      snd (snd (verify_extract_peer p vrb pnb peercertb ctxb)) = 0
      \<and> enforce_CN ctxb \<noteq> 0 \<and> vrb = X509_V_OK"
    unfolding vep_hostname_matched vep_found spec_hostname_matched_def dns_upd
    by (cases "dns_names peercertb = []") (auto simp add: dns_examined_def c_int_def split: if_splits)
  show ?thesis using a b c vep_found[of p vr pn peercert ctx] by blast
qed

text \<open>
  The first certificate has a DNS entry that does not match and a CommonName that would;
  the second has no DNS entry, and its CommonName decides.
\<close>

lemma ex_san_facts:
  "dns_names ex_cert_san \<noteq> []"
  "match_hostname (common_name ex_cert_san) ''mail.example.com''"
  "dns_examined ''mail.example.com'' (dns_names ex_cert_san) = 1"
  by code_simp+

lemma ex_cn_facts:
  "hostname_matched (fst (verify_extract_peer ex_params X509_V_OK ''mail.example.com''
       ex_cert_cn (ex_context\<lparr>enforce_CN := 1\<rparr>))) = 1"
  "hostname_matched (fst (verify_extract_peer ex_params X509_V_OK ''mail.example.com''
       (ex_cert_cn\<lparr>tls_peer_CN := Some ''*.example.org''\<rparr>) (ex_context\<lparr>enforce_CN := 1\<rparr>))) = 0"
  by code_simp+

theorem san_precedence_witness:
  "dns_names ex_cert_san \<noteq> []
   \<and> match_hostname (common_name ex_cert_san) ''mail.example.com''
   \<and> hostname_matched (fst (verify_extract_peer ex_params X509_V_OK ''mail.example.com''
        ex_cert_san (ex_context\<lparr>enforce_CN := 1\<rparr>))) = 0
   \<and> snd (snd (verify_extract_peer ex_params X509_V_OK ''mail.example.com''
        ex_cert_san (ex_context\<lparr>enforce_CN := 1\<rparr>))) = 1
   \<and> hostname_matched (fst (verify_extract_peer ex_params X509_V_OK ''mail.example.com''
        (ex_cert_cn\<lparr>tls_peer_CN := Some ''*.example.org''\<rparr>) (ex_context\<lparr>enforce_CN := 1\<rparr>))) \<noteq>
      hostname_matched (fst (verify_extract_peer ex_params X509_V_OK ''mail.example.com''
        ex_cert_cn (ex_context\<lparr>enforce_CN := 1\<rparr>)))
   \<and> snd (snd (verify_extract_peer ex_params X509_V_OK ''mail.example.com''
        ex_cert_cn (ex_context\<lparr>enforce_CN := 1\<rparr>))) = 0"
proof -
  have ne: "\<not> list_ex (\<lambda>d. match_hostname d ''mail.example.com'') (dns_names ex_cert_san)"
    by code_simp
  have e: "enforce_CN (ex_context\<lparr>enforce_CN := 1\<rparr>) \<noteq> 0" by simp
  note t = san_precedence[where peercert = ex_cert_san and p = ex_params and vr = X509_V_OK
      and pn = "''mail.example.com''" and ctx = "ex_context\<lparr>enforce_CN := 1\<rparr>"
      and cn = None and vrb = X509_V_OK and pnb = "''mail.example.com''"
      and peercertb = ex_cert_cn and cnb = "Some ''*.example.org''"
      and ctxb = "ex_context\<lparr>enforce_CN := 1\<rparr>"]
  show ?thesis
    using t ex_san_facts ex_cn_facts ne e by (simp add: c_int_def)
qed

text \<open>
  C5. After \<^verbatim>\<open>verify_extract_peer\<close>, for every certificate, context, verification result
  and peer name, \<^verbatim>\<open>peer_CN\<close> and \<^verbatim>\<open>issuer_CN\<close> are strings and not null pointers: the
  extracted name, or the empty string when no name could be extracted.
\<close>

theorem peer_names_never_null:
  "peer_CN (fst (verify_extract_peer p vr pn peercert ctx)) =
     Some (case tls_peer_CN peercert of None \<Rightarrow> [] | Some cn \<Rightarrow> cn)
   \<and> issuer_CN (fst (verify_extract_peer p vr pn peercert ctx)) =
     Some (case tls_issuer_CN peercert of None \<Rightarrow> [] | Some cn \<Rightarrow> cn)"
  by (simp add: vep_names)

theorem peer_names_never_null_witness:
  "peer_CN (fst (verify_extract_peer ex_params 18 ''mail.example.com'' ex_cert_anon ex_context))
     = Some []
   \<and> issuer_CN (fst (verify_extract_peer ex_params 18 ''mail.example.com'' ex_cert_anon
        ex_context)) = Some []"
  using peer_names_never_null[of ex_params 18 "''mail.example.com''" ex_cert_anon ex_context]
  by (simp add: ex_cert_anon_def)

subsection \<open>The session cache helpers\<close>

text \<open>
  C9. \<^verbatim>\<open>uncache_session\<close> does nothing exactly when the \<^verbatim>\<open>serverid\<close> of the context is the
  null pointer; for every other key, the empty string included, it sends one delete
  request to the cache service.
\<close>

theorem uncache_session_guard:
  "(uncache_session p g ctx = []) = (serverid ctx = None)
   \<and> cache_deletes (uncache_session p g ctx) = (if serverid ctx = None then 0 else 1)"
  by (simp add: uncache_session_def cache_deletes_def split: option.splits)

theorem uncache_session_guard_witness:
  "uncache_session ex_params (ex_globals 1) ex_context = []
   \<and> serverid ex_context = None"
  using uncache_session_guard[of ex_params "ex_globals 1" ex_context]
  by (simp add: ex_context_def)

text \<open>With the empty string as key the delete request is sent.\<close>

theorem uncache_session_empty_key_counterexample:
  "uncache_session ex_params (ex_globals 1) (ex_context\<lparr>serverid := Some []\<rparr>)
     = [Tls_mgr_delete 1 []]"
  by (simp add: uncache_session_def ex_params_def ex_globals_def)

subsection \<open>Initialisation\<close>

text \<open>
  C6. When \<^verbatim>\<open>tls_ext_seed\<close> reports failure, \<^verbatim>\<open>tls_client_init\<close> returns the null pointer
  without having called \<^verbatim>\<open>SSL_CTX_new\<close>, leaves the globals as they were and logs the
  warning that TLS support is disabled.
\<close>

theorem init_without_entropy:
  "tls_ext_seed_init e < 0 \<Longrightarrow>
     fst (tls_client_init p e g unused_verifydepth) = None
     \<and> fst (snd (tls_client_init p e g unused_verifydepth)) = g
     \<and> SSL_CTX_new \<notin> set (snd (snd (tls_client_init p e g unused_verifydepth)))
     \<and> Msg_warn ''no entropy for TLS key generation: disabling TLS support'' []
         \<in> set (snd (snd (tls_client_init p e g unused_verifydepth)))"
  by (simp add: tls_client_init_def Let_def)

theorem init_without_entropy_witness:
  "tls_ext_seed_init (ex_init_env (- 1)) < 0
   \<and> fst (tls_client_init ex_params (ex_init_env (- 1)) (ex_globals 0) 5) = None
   \<and> SSL_CTX_new \<notin> set (snd (snd (tls_client_init ex_params (ex_init_env (- 1)) (ex_globals 0) 5)))"
proof -
  have h: "tls_ext_seed_init (ex_init_env (- 1)) < 0" by (simp add: ex_init_env_def)
  show ?thesis
    using h init_without_entropy[OF h, of ex_params "ex_globals 0" 5] by simp
qed

subsection \<open>Failure of the handshake\<close>

lemma load_clnt_session_no_delete:
  "cache_deletes (snd (load_clnt_session p e g sid)) = 0"
  by (simp add: load_clnt_session_def cache_deletes_def Let_def split: prod.splits option.splits)

lemma prime_session_no_delete:
  "cache_deletes (snd (prime_session p e g c sid)) = 0"
  using load_clnt_session_no_delete[of p e g sid]
  by (auto simp add: prime_session_def cache_deletes_def split: prod.splits option.splits)

lemma cache_deletes_append: "cache_deletes (a @ b) = cache_deletes a + cache_deletes b"
  by (simp add: cache_deletes_def)

text \<open>
  C10. When \<^verbatim>\<open>tls_bio_connect\<close> returns a status that is not positive,
  \<^verbatim>\<open>tls_client_start\<close> returns the null pointer, and its trace ends with the delete request
  for the \<^verbatim>\<open>serverid\<close> followed by the release of the context; this is the only delete
  request of the call. Nothing is assumed about \<^verbatim>\<open>tls_client_cache\<close> or about a session
  having been loaded.
\<close>

theorem handshake_failure_uncaches:
  assumes "SSL_new_res e = Some c" and "SSL_set_ex_data_res e \<noteq> 0"
    and "BIO_new_bio_pair_res e = Some (ib, nb)"
    and "sts (tls_bio_connect e (fst (prime_session p e g c sid))) \<le> 0"
  shows "fst (tls_client_start p e g client_ctx stream timeout enforce_peername peername sid) = None
    \<and> cache_deletes (snd (tls_client_start p e g client_ctx stream timeout enforce_peername peername sid)) = 1
    \<and> (\<exists>t. snd (tls_client_start p e g client_ctx stream timeout enforce_peername peername sid)
          = t @ [Tls_mgr_delete (tls_client_cache g) sid, Tls_free_context])"
proof -
  obtain session t where ps: "prime_session p e g c sid = (session, t)"
    by (cases "prime_session p e g c sid")
  have nd: "cache_deletes t = 0"
    using prime_session_no_delete[of p e g c sid] ps by simp
  have st: "sts (tls_bio_connect e session) \<le> 0" using assms(4) ps by simp
  show ?thesis
    using assms(1-3) ps st nd
    by (simp add: tls_client_start_def tls_client_start_handshake_def uncache_session_def
        Let_def cache_deletes_def)
qed

theorem handshake_failure_uncaches_witness:
  "SSL_new_res (ex_env ex_failed) = Some 1
   \<and> SSL_set_ex_data_res (ex_env ex_failed) \<noteq> 0
   \<and> BIO_new_bio_pair_res (ex_env ex_failed) = Some (2, 3)
   \<and> tls_client_cache (ex_globals 0) = 0
   \<and> prime_session ex_params (ex_env ex_failed) (ex_globals 0) 1 ''smtp.example.com'' = (None, [])
   \<and> sts (tls_bio_connect (ex_env ex_failed) None) \<le> 0
   \<and> fst (tls_client_start ex_params (ex_env ex_failed) (ex_globals 0) 7 5 300 0
          ''mail.example.com'' ''smtp.example.com'') = None
   \<and> cache_deletes (snd (tls_client_start ex_params (ex_env ex_failed) (ex_globals 0) 7 5 300 0
          ''mail.example.com'' ''smtp.example.com'')) = 1"
proof -
  have a: "SSL_new_res (ex_env ex_failed) = Some 1"
    and b: "SSL_set_ex_data_res (ex_env ex_failed) \<noteq> 0"
    and c: "BIO_new_bio_pair_res (ex_env ex_failed) = Some (2, 3)"
    by (simp_all add: ex_env_def)
  have g: "tls_client_cache (ex_globals 0) = 0" by (simp add: ex_globals_def)
  have ps: "prime_session ex_params (ex_env ex_failed) (ex_globals 0) 1 ''smtp.example.com''
      = (None, [])"
    by (simp add: prime_session_def g)
  have d: "sts (tls_bio_connect (ex_env ex_failed)
      (fst (prime_session ex_params (ex_env ex_failed) (ex_globals 0) 1 ''smtp.example.com''))) \<le> 0"
    by (simp add: ps ex_env_def ex_failed_def ex_handshake_def)
  show ?thesis
    using handshake_failure_uncaches[OF a b c d, of 7 5 300 0 "''mail.example.com''"] a b c g ps d
    by simp
qed

subsection \<open>After the handshake\<close>

text \<open>What the look-up in the session cache can leave in the trace.\<close>

lemma prime_session_trace:
  "set (snd (prime_session p e g c sid)) \<subseteq>
     {Msg_info ''looking for session %s in client cache'' [S sid],
      Msg_info ''reloaded session %s from client cache'' [S sid],
      Tls_mgr_lookup (tls_client_cache g) sid}
     \<union> range Tls_session_activate \<union> range (SSL_set_session c) \<union> range SSL_SESSION_free"
  by (auto simp add: prime_session_def load_clnt_session_def Let_def
      split: prod.splits option.splits if_splits)

lemma prime_session_absent:
  "X509_get_ext_d2i \<notin> set (snd (prime_session p e g c sid))"
  "Msg_info ''Unverified: subject_CN=%s, issuer=%s'' a \<notin> set (snd (prime_session p e g c sid))"
  "Msg_info ''Verified: subject_CN=%s, issuer=%s'' a \<notin> set (snd (prime_session p e g c sid))"
  "SSL_shutdown \<notin> set (snd (prime_session p e g c sid))"
  using prime_session_trace[of p e g c sid] by auto

text \<open>
  C8. With enforcement off, a completed handshake and a peer certificate whose chain did
  not verify, \<^verbatim>\<open>tls_client_start\<close> returns the context, with \<^verbatim>\<open>peer_verified\<close> and
  \<^verbatim>\<open>hostname_matched\<close> both 0; the subject alternative name extension is never fetched;
  the "Unverified" message is logged exactly when the log level is at least 1, and the
  "Verified" message never.
\<close>

theorem opportunistic_unverified:
  assumes "SSL_new_res e = Some c" and "SSL_set_ex_data_res e \<noteq> 0"
    and "BIO_new_bio_pair_res e = Some (ib, nb)"
    and "hs = tls_bio_connect e (fst (prime_session p e g c sid))"
    and "0 < sts hs"
    and "SSL_get_peer_certificate hs = Some peercert"
    and "SSL_get_verify_result hs \<noteq> X509_V_OK"
  shows "\<exists>ctx t. tls_client_start p e g client_ctx stream timeout 0 peername sid = (Some ctx, t)
      \<and> peer_verified ctx = 0 \<and> hostname_matched ctx = 0
      \<and> X509_get_ext_d2i \<notin> set t
      \<and> (Msg_info ''Unverified: subject_CN=%s, issuer=%s''
             [S (common_name peercert), S (str_of (tls_issuer_CN peercert))] \<in> set t)
          = (1 \<le> var_smtp_tls_loglevel p)
      \<and> (\<forall>a. Msg_info ''Verified: subject_CN=%s, issuer=%s'' a \<notin> set t)"
proof -
  have st: "\<not> sts (tls_bio_connect e (fst (prime_session p e g c sid))) \<le> 0"
    using assms(4,5) by simp
  show ?thesis
    using assms(1-3) st assms(6,7)[unfolded assms(4)]
    by (simp add: tls_client_start_def tls_client_start_handshake_def
        tls_client_start_connected_def Let_def case_prod_beta
        vep_unenforced log_verified_def str_of_def c_int_def prime_session_absent)
qed

text \<open>The events of the verifier: log messages and the two calls for the extension.\<close>

lemma cd_simps:
  "cache_deletes [] = 0"
  "cache_deletes (Msg_info f a # t) = cache_deletes t"
  "cache_deletes (Call n a # t) = (if n = ''tls_mgr_delete'' then 1 else 0) + cache_deletes t"
  by (simp_all add: cache_deletes_def)

lemma vep_trace_events:
  "set (fst (snd (verify_extract_peer p vr pn cert ctx))) \<subseteq>
     range (\<lambda>(f, a). Msg_info f a) \<union> {X509_get_ext_d2i, Sk_GENERAL_NAME_free}"
proof (cases "enforce_CN ctx \<noteq> 0 \<and> vr = X509_V_OK")
  case True
  then show ?thesis
    by (auto simp add: vep_enforced verify_dNSNames_trace verify_CommonName_def log_verified_def
        split: option.splits if_splits)
next
  case False
  then have "enforce_CN ctx = 0 \<or> vr \<noteq> X509_V_OK" by blast
  then show ?thesis
    by (auto simp add: vep_unenforced log_verified_def split: if_splits)
qed

lemma no_delete_events:
  assumes "set t \<subseteq> range (\<lambda>(f, a). Msg_info f a) \<union> {X509_get_ext_d2i, Sk_GENERAL_NAME_free}"
  shows "cache_deletes t = 0" and "SSL_shutdown \<notin> set t"
    and "SSL_set_session c s \<notin> set t"
proof -
  have "\<not> is_cache_delete ev" if "ev \<in> set t" for ev
    using assms that by auto
  then show "cache_deletes t = 0"
    by (simp add: cache_deletes_def filter_empty_conv)
  show "SSL_shutdown \<notin> set t" using assms by auto
  show "SSL_set_session c s \<notin> set t" using assms by auto
qed

lemma vep_trace_quiet:
  "cache_deletes (fst (snd (verify_extract_peer p vr pn cert ctx))) = 0"
  "SSL_shutdown \<notin> set (fst (snd (verify_extract_peer p vr pn cert ctx)))"
  "SSL_set_session c s \<notin> set (fst (snd (verify_extract_peer p vr pn cert ctx)))"
  using no_delete_events[OF vep_trace_events[of p vr pn cert ctx]] by simp_all

text \<open>
  C3. With enforcement on, a completed handshake and no matching host name (no peer
  certificate, or one for which the rule of the verifier fails; by \<open>vep_hostname_matched\<close>
  that rule is the value the code stores in \<^verbatim>\<open>hostname_matched\<close>), \<^verbatim>\<open>tls_client_start\<close>
  returns the null pointer; its trace ends with the "hostname mismatch" message and the
  teardown by \<^verbatim>\<open>tls_client_stop\<close> with failure flag 0, the clean teardown: the close
  notification is attempted, once, then the context is released and the stream restored.
\<close>

theorem hostname_mismatch_teardown:
  assumes "SSL_new_res e = Some c" and "SSL_set_ex_data_res e \<noteq> 0"
    and "BIO_new_bio_pair_res e = Some (ib, nb)"
    and "hs = tls_bio_connect e (fst (prime_session p e g c sid))"
    and "0 < sts hs"
    and "enforce_peername \<noteq> 0"
    and "case SSL_get_peer_certificate hs of
           None \<Rightarrow> True
         | Some peercert \<Rightarrow>
             \<not> spec_hostname_matched 1 (SSL_get_verify_result hs) peername peercert"
  shows "fst (tls_client_start p e g client_ctx stream timeout enforce_peername peername sid) = None
    \<and> (\<exists>t. snd (tls_client_start p e g client_ctx stream timeout enforce_peername peername sid)
            = t @ [Msg_info (''Server certificate could not be verified for %s:''
                             @ '' hostname mismatch'') [S peername],
                   SSL_shutdown, Tls_free_context, Tls_stream_stop stream]
          \<and> SSL_shutdown \<notin> set t)"
proof -
  have st: "\<not> sts (tls_bio_connect e (fst (prime_session p e g c sid))) \<le> 0"
    using assms(4,5) by simp
  show ?thesis
    using assms(1-3) st assms(6) assms(7)[unfolded assms(4)]
    by (simp add: tls_client_start_def tls_client_start_handshake_def
        tls_client_start_connected_def tls_client_stop_def Let_def case_prod_beta
        vep_hostname_matched vep_trace_quiet c_int_def prime_session_absent
        split: option.splits)
qed

lemma connected_deletes:
  "cache_deletes (snd (tls_client_start_connected p client_ctx stream timeout enf pn hs ctx t))
     = cache_deletes t"
  by (simp add: tls_client_start_connected_def tls_client_stop_def Let_def case_prod_beta
      vep_trace_quiet cache_deletes_append cd_simps split: option.splits)

lemma start_deletes:
  "cache_deletes (snd (tls_client_start p e g client_ctx stream timeout enf pn sid)) =
     (case SSL_new_res e of
        None \<Rightarrow> 0
      | Some c \<Rightarrow>
          (if SSL_set_ex_data_res e = 0 then 0
           else (case BIO_new_bio_pair_res e of
                   None \<Rightarrow> 0
                 | Some bios \<Rightarrow>
                     (if sts (tls_bio_connect e (fst (prime_session p e g c sid))) \<le> 0
                      then 1 else 0))))"
  by (simp add: tls_client_start_def tls_client_start_handshake_def uncache_session_def
      Let_def case_prod_beta connected_deletes prime_session_no_delete
      cache_deletes_append cd_simps split: option.splits)

text \<open>
  C4. With enforcement on, a completed handshake and no matching host name,
  \<^verbatim>\<open>tls_client_start\<close> returns the null pointer without a single delete request to the
  session cache. Over all calls of \<^verbatim>\<open>tls_client_start\<close>, a delete request is sent, and
  then exactly one, only when the handshake itself fails: the connection, its application
  data and the buffer pair were obtained and \<^verbatim>\<open>tls_bio_connect\<close> returned a status that
  is not positive.
\<close>

theorem hostname_mismatch_no_delete:
  "(SSL_new_res e = Some c \<and> SSL_set_ex_data_res e \<noteq> 0
      \<and> BIO_new_bio_pair_res e = Some (ib, nb)
      \<and> hs = tls_bio_connect e (fst (prime_session p e g c sid))
      \<and> 0 < sts hs
      \<and> enforce_peername \<noteq> 0
      \<and> (case SSL_get_peer_certificate hs of
            None \<Rightarrow> True
          | Some peercert \<Rightarrow>
              \<not> spec_hostname_matched 1 (SSL_get_verify_result hs) peername peercert)
    \<longrightarrow> fst (tls_client_start p e g client_ctx stream timeout enforce_peername peername sid)
          = None
        \<and> cache_deletes (snd (tls_client_start p e g client_ctx stream timeout
                                 enforce_peername peername sid)) = 0)
   \<and> cache_deletes (snd (tls_client_start p e g client_ctx stream timeout
                            enforce_peername peername sid)) =
       (if \<exists>c ib nb. SSL_new_res e = Some c \<and> SSL_set_ex_data_res e \<noteq> 0
              \<and> BIO_new_bio_pair_res e = Some (ib, nb)
              \<and> sts (tls_bio_connect e (fst (prime_session p e g c sid))) \<le> 0
        then 1 else 0)"
proof -
  have a: "fst (tls_client_start p e g client_ctx stream timeout enforce_peername peername sid)
          = None
        \<and> cache_deletes (snd (tls_client_start p e g client_ctx stream timeout
                                 enforce_peername peername sid)) = 0"
    if h: "SSL_new_res e = Some c" "SSL_set_ex_data_res e \<noteq> 0"
      "BIO_new_bio_pair_res e = Some (ib, nb)"
      "hs = tls_bio_connect e (fst (prime_session p e g c sid))" "0 < sts hs"
      "enforce_peername \<noteq> 0"
      "case SSL_get_peer_certificate hs of
            None \<Rightarrow> True
          | Some peercert \<Rightarrow>
              \<not> spec_hostname_matched 1 (SSL_get_verify_result hs) peername peercert"
  proof -
    have st: "\<not> sts (tls_bio_connect e (fst (prime_session p e g c sid))) \<le> 0"
      using h(4,5) by simp
    have d: "cache_deletes (snd (tls_client_start p e g client_ctx stream timeout
                                 enforce_peername peername sid)) = 0"
      using h(1-3) st by (simp add: start_deletes)
    have r: "fst (tls_client_start p e g client_ctx stream timeout enforce_peername peername sid)
          = None"
      using h(1-3) st h(6) h(7)[unfolded h(4)]
      by (simp add: tls_client_start_def tls_client_start_handshake_def
          tls_client_start_connected_def Let_def case_prod_beta
          vep_hostname_matched c_int_def split: option.splits)
    show ?thesis using d r by simp
  qed
  have b: "cache_deletes (snd (tls_client_start p e g client_ctx stream timeout
                            enforce_peername peername sid)) =
       (if \<exists>c ib nb. SSL_new_res e = Some c \<and> SSL_set_ex_data_res e \<noteq> 0
              \<and> BIO_new_bio_pair_res e = Some (ib, nb)
              \<and> sts (tls_bio_connect e (fst (prime_session p e g c sid))) \<le> 0
        then 1 else 0)"
    by (auto simp add: start_deletes split: option.splits)
  show ?thesis using a b by blast
qed

text \<open>The example environments.\<close>

lemma ex_env_alloc:
  "SSL_new_res (ex_env hs) = Some 1" "SSL_set_ex_data_res (ex_env hs) \<noteq> 0"
  "BIO_new_bio_pair_res (ex_env hs) = Some (2, 3)"
  "tls_bio_connect (ex_env hs) session = hs"
  by (simp_all add: ex_env_def)

lemma ex_env_cached_alloc:
  "SSL_new_res (ex_env_cached hs) = Some 1" "SSL_set_ex_data_res (ex_env_cached hs) \<noteq> 0"
  "BIO_new_bio_pair_res (ex_env_cached hs) = Some (2, 3)"
  "tls_bio_connect (ex_env_cached hs) session = hs"
  by (simp_all add: ex_env_cached_def ex_env_def)

lemma ex_handshake_sel:
  "sts (ex_handshake cert vr) = 1" "SSL_get_peer_certificate (ex_handshake cert vr) = Some cert"
  "SSL_get_verify_result (ex_handshake cert vr) = vr"
  by (simp_all add: ex_handshake_def)

lemma ex_san_unmatched:
  "\<not> spec_hostname_matched 1 X509_V_OK ''mail.example.com'' ex_cert_san"
  by code_simp

text \<open>
  Enforcement on, the certificate has a DNS entry for another host: the connection is
  refused and the close notification is sent.
\<close>

theorem hostname_mismatch_close_notify_counterexample:
  "fst (tls_client_start ex_params (ex_env (ex_handshake ex_cert_san X509_V_OK)) (ex_globals 0)
          7 5 300 1 ''mail.example.com'' ''smtp.example.com'') = None
   \<and> SSL_shutdown \<in> set (snd (tls_client_start ex_params
          (ex_env (ex_handshake ex_cert_san X509_V_OK)) (ex_globals 0)
          7 5 300 1 ''mail.example.com'' ''smtp.example.com''))"
  by code_simp

theorem hostname_mismatch_teardown_witness:
  "SSL_new_res (ex_env (ex_handshake ex_cert_san X509_V_OK)) = Some 1
   \<and> SSL_set_ex_data_res (ex_env (ex_handshake ex_cert_san X509_V_OK)) \<noteq> 0
   \<and> BIO_new_bio_pair_res (ex_env (ex_handshake ex_cert_san X509_V_OK)) = Some (2, 3)
   \<and> 0 < sts (ex_handshake ex_cert_san X509_V_OK)
   \<and> \<not> spec_hostname_matched 1 X509_V_OK ''mail.example.com'' ex_cert_san
   \<and> fst (tls_client_start ex_params (ex_env (ex_handshake ex_cert_san X509_V_OK)) (ex_globals 0)
          7 5 300 1 ''mail.example.com'' ''smtp.example.com'') = None
   \<and> Tls_free_context \<in> set (snd (tls_client_start ex_params
          (ex_env (ex_handshake ex_cert_san X509_V_OK)) (ex_globals 0)
          7 5 300 1 ''mail.example.com'' ''smtp.example.com''))"
proof -
  let ?hs = "ex_handshake ex_cert_san X509_V_OK"
  have h4: "?hs = tls_bio_connect (ex_env ?hs)
      (fst (prime_session ex_params (ex_env ?hs) (ex_globals 0) 1 ''smtp.example.com''))"
    by (simp add: ex_env_alloc)
  have h5: "0 < sts ?hs" by (simp add: ex_handshake_sel)
  have h6: "(1::int) \<noteq> 0" by simp
  have h7: "case SSL_get_peer_certificate ?hs of None \<Rightarrow> True
      | Some peercert \<Rightarrow> \<not> spec_hostname_matched 1 (SSL_get_verify_result ?hs)
          ''mail.example.com'' peercert"
    using ex_san_unmatched by (simp add: ex_handshake_sel)
  note t = hostname_mismatch_teardown[OF ex_env_alloc(1) ex_env_alloc(2) ex_env_alloc(3)
      h4 h5 h6 h7, of 7 5 300]
  show ?thesis
    using t h5 ex_san_unmatched ex_env_alloc(1-3)[of ?hs] by auto
qed

text \<open>
  The same with a session loaded from the cache: the connection is refused and no delete
  request is sent.
\<close>

theorem hostname_mismatch_delete_counterexample:
  "fst (tls_client_start ex_params (ex_env_cached (ex_handshake ex_cert_san X509_V_OK))
          (ex_globals 1) 7 5 300 1 ''mail.example.com'' ''smtp.example.com'') = None
   \<and> fst (prime_session ex_params (ex_env_cached (ex_handshake ex_cert_san X509_V_OK))
          (ex_globals 1) 1 ''smtp.example.com'') = Some 4
   \<and> cache_deletes (snd (tls_client_start ex_params
          (ex_env_cached (ex_handshake ex_cert_san X509_V_OK)) (ex_globals 1)
          7 5 300 1 ''mail.example.com'' ''smtp.example.com'')) = 0"
  by code_simp

theorem hostname_mismatch_no_delete_witness:
  "SSL_new_res (ex_env_cached (ex_handshake ex_cert_cn 18)) = Some 1
   \<and> SSL_set_ex_data_res (ex_env_cached (ex_handshake ex_cert_cn 18)) \<noteq> 0
   \<and> BIO_new_bio_pair_res (ex_env_cached (ex_handshake ex_cert_cn 18)) = Some (2, 3)
   \<and> 0 < sts (ex_handshake ex_cert_cn 18)
   \<and> \<not> spec_hostname_matched 1 18 ''mail.example.com'' ex_cert_cn
   \<and> fst (tls_client_start ex_params (ex_env_cached (ex_handshake ex_cert_cn 18)) (ex_globals 1)
          7 5 300 1 ''mail.example.com'' ''smtp.example.com'') = None
   \<and> cache_deletes (snd (tls_client_start ex_params
          (ex_env_cached (ex_handshake ex_cert_cn 18)) (ex_globals 1)
          7 5 300 1 ''mail.example.com'' ''smtp.example.com'')) = 0
   \<and> sts (tls_bio_connect (ex_env ex_failed)
          (fst (prime_session ex_params (ex_env ex_failed) (ex_globals 1) 1
                  ''smtp.example.com''))) \<le> 0
   \<and> cache_deletes (snd (tls_client_start ex_params (ex_env ex_failed) (ex_globals 1)
          7 5 300 1 ''mail.example.com'' ''smtp.example.com'')) = 1"
proof -
  let ?hs = "ex_handshake ex_cert_cn 18"
  have um: "\<not> spec_hostname_matched 1 18 ''mail.example.com'' ex_cert_cn"
    by (simp add: spec_hostname_matched_def X509_V_OK_def)
  have h4: "?hs = tls_bio_connect (ex_env_cached ?hs)
      (fst (prime_session ex_params (ex_env_cached ?hs) (ex_globals 1) 1 ''smtp.example.com''))"
    by (simp add: ex_env_cached_alloc)
  have h5: "0 < sts ?hs" by (simp add: ex_handshake_sel)
  have h6: "(1::int) \<noteq> 0" by simp
  have h7: "case SSL_get_peer_certificate ?hs of None \<Rightarrow> True
      | Some peercert \<Rightarrow> \<not> spec_hostname_matched 1 (SSL_get_verify_result ?hs)
          ''mail.example.com'' peercert"
    using um by (simp add: ex_handshake_sel)
  note t = hostname_mismatch_no_delete[where e = "ex_env_cached ?hs" and c = 1 and ib = 2
      and nb = 3 and hs = ?hs and p = ex_params and g = "ex_globals 1"
      and sid = "''smtp.example.com''" and enforce_peername = 1
      and peername = "''mail.example.com''" and client_ctx = 7 and stream = 5
      and timeout = 300, THEN conjunct1]
  have first: "fst (tls_client_start ex_params (ex_env_cached ?hs) (ex_globals 1)
          7 5 300 1 ''mail.example.com'' ''smtp.example.com'') = None
     \<and> cache_deletes (snd (tls_client_start ex_params (ex_env_cached ?hs) (ex_globals 1)
          7 5 300 1 ''mail.example.com'' ''smtp.example.com'')) = 0"
    using t ex_env_cached_alloc(1-3)[of ?hs] h4 h5 h6 h7 by blast
  have f: "sts (tls_bio_connect (ex_env ex_failed)
          (fst (prime_session ex_params (ex_env ex_failed) (ex_globals 1) 1
                  ''smtp.example.com''))) \<le> 0"
    by (simp add: ex_env_alloc ex_failed_def ex_handshake_def)
  have ex: "\<exists>c ib nb. SSL_new_res (ex_env ex_failed) = Some c
      \<and> SSL_set_ex_data_res (ex_env ex_failed) \<noteq> 0
      \<and> BIO_new_bio_pair_res (ex_env ex_failed) = Some (ib, nb)
      \<and> sts (tls_bio_connect (ex_env ex_failed)
            (fst (prime_session ex_params (ex_env ex_failed) (ex_globals 1) c
                    ''smtp.example.com''))) \<le> 0"
    using ex_env_alloc(1-3)[of ex_failed] f by blast
  note u = hostname_mismatch_no_delete[where e = "ex_env ex_failed" and p = ex_params
      and g = "ex_globals 1" and sid = "''smtp.example.com''" and enforce_peername = 1
      and peername = "''mail.example.com''" and client_ctx = 7 and stream = 5
      and timeout = 300, THEN conjunct2]
  have second: "cache_deletes (snd (tls_client_start ex_params (ex_env ex_failed) (ex_globals 1)
          7 5 300 1 ''mail.example.com'' ''smtp.example.com'')) = 1"
    using u ex by simp
  show ?thesis
    using first second f h5 um ex_env_cached_alloc(1-3)[of ?hs] by blast
qed

theorem opportunistic_unverified_witness:
  "SSL_new_res (ex_env (ex_handshake ex_cert_cn 18)) = Some 1
   \<and> SSL_set_ex_data_res (ex_env (ex_handshake ex_cert_cn 18)) \<noteq> 0
   \<and> BIO_new_bio_pair_res (ex_env (ex_handshake ex_cert_cn 18)) = Some (2, 3)
   \<and> 0 < sts (ex_handshake ex_cert_cn 18)
   \<and> SSL_get_peer_certificate (ex_handshake ex_cert_cn 18) = Some ex_cert_cn
   \<and> SSL_get_verify_result (ex_handshake ex_cert_cn 18) \<noteq> X509_V_OK
   \<and> match_hostname (common_name ex_cert_cn) ''mail.example.com''
   \<and> fst (tls_client_start ex_params (ex_env (ex_handshake ex_cert_cn 18)) (ex_globals 0)
          7 5 300 0 ''mail.example.com'' ''smtp.example.com'') \<noteq> None
   \<and> X509_get_ext_d2i \<notin> set (snd (tls_client_start ex_params
          (ex_env (ex_handshake ex_cert_cn 18)) (ex_globals 0)
          7 5 300 0 ''mail.example.com'' ''smtp.example.com''))
   \<and> 1 \<le> var_smtp_tls_loglevel ex_params"
proof -
  let ?hs = "ex_handshake ex_cert_cn 18"
  have h4: "?hs = tls_bio_connect (ex_env ?hs)
      (fst (prime_session ex_params (ex_env ?hs) (ex_globals 0) 1 ''smtp.example.com''))"
    by (simp add: ex_env_alloc)
  have h5: "0 < sts ?hs" by (simp add: ex_handshake_sel)
  have h6: "SSL_get_peer_certificate ?hs = Some ex_cert_cn" by (simp add: ex_handshake_sel)
  have h7: "SSL_get_verify_result ?hs \<noteq> X509_V_OK"
    by (simp add: ex_handshake_sel X509_V_OK_def)
  have m: "match_hostname (common_name ex_cert_cn) ''mail.example.com''" by code_simp
  have l: "1 \<le> var_smtp_tls_loglevel ex_params" by (simp add: ex_params_def)
  note t = opportunistic_unverified[OF ex_env_alloc(1) ex_env_alloc(2) ex_env_alloc(3)
      h4 h5 h6 h7, of 7 5 300 "''mail.example.com''"]
  show ?thesis
    using t h5 h6 h7 m l ex_env_alloc(1-3)[of ?hs] by auto
qed


subsection \<open>Failure of the session cache\<close>

lemma load_clnt_session_failure:
  "fst (load_clnt_session p e g sid) = None \<longleftrightarrow>
     (fst (tls_mgr_lookup e (tls_client_cache g) sid) \<noteq> TLS_MGR_STAT_OK p
      \<or> tls_session_activate e (snd (tls_mgr_lookup e (tls_client_cache g) sid)) = None)"
  by (simp add: load_clnt_session_def Let_def case_prod_beta split: option.splits)

lemma load_clnt_session_trace:
  "set (snd (load_clnt_session p e g sid)) \<subseteq>
     {Msg_info ''looking for session %s in client cache'' [S sid],
      Msg_info ''reloaded session %s from client cache'' [S sid],
      Tls_mgr_lookup (tls_client_cache g) sid}
     \<union> range Tls_session_activate"
  by (auto simp add: load_clnt_session_def Let_def split: prod.splits option.splits if_splits)

lemma prime_session_failure:
  assumes "fst (load_clnt_session p e g sid) = None"
  shows "fst (prime_session p e g c sid) = None"
    and "SSL_set_session c' s \<notin> set (snd (prime_session p e g c sid))"
    and "fst (prime_session p e (g\<lparr>tls_client_cache := 0\<rparr>) c sid) = None"
proof -
  obtain t where l: "load_clnt_session p e g sid = (None, t)"
    using assms by (cases "load_clnt_session p e g sid") simp
  have t: "SSL_set_session c' s \<notin> set t"
    using load_clnt_session_trace[of p e g sid] l by auto
  show "fst (prime_session p e g c sid) = None"
    by (simp add: prime_session_def l)
  show "SSL_set_session c' s \<notin> set (snd (prime_session p e g c sid))"
    using t by (simp add: prime_session_def l)
  show "fst (prime_session p e (g\<lparr>tls_client_cache := 0\<rparr>) c sid) = None"
    by (simp add: prime_session_def)
qed

lemma connected_result:
  "fst (tls_client_start_connected p client_ctx stream timeout enf pn hs ctx t) =
   fst (tls_client_start_connected p client_ctx stream timeout enf pn hs ctx t')"
  by (simp add: tls_client_start_connected_def Let_def case_prod_beta split: option.splits)

lemma connected_trace:
  "\<exists>t'. snd (tls_client_start_connected p client_ctx stream timeout enf pn hs ctx t) = t @ t'
     \<and> SSL_set_session c' s \<notin> set t'"
  by (simp add: tls_client_start_connected_def tls_client_stop_def Let_def case_prod_beta
      vep_trace_quiet split: option.splits)


text \<open>
  C7. When the look-up fails (the cache service does not report \<^verbatim>\<open>TLS_MGR_STAT_OK\<close>, or
  the data it returns cannot be activated), \<^verbatim>\<open>load_clnt_session\<close> returns the null pointer
  and \<^verbatim>\<open>tls_client_start\<close> returns what it returns with the client cache switched off;
  when the allocations succeed, the handshake is run and no session was loaded into the
  connection before.
\<close>

theorem cache_failure_fresh_handshake:
  assumes "fst (tls_mgr_lookup e (tls_client_cache g) sid) \<noteq> TLS_MGR_STAT_OK p
      \<or> tls_session_activate e (snd (tls_mgr_lookup e (tls_client_cache g) sid)) = None"
  shows "fst (load_clnt_session p e g sid) = None
    \<and> fst (tls_client_start p e g client_ctx stream timeout enforce_peername peername sid) =
       fst (tls_client_start p e (g\<lparr>tls_client_cache := 0\<rparr>) client_ctx stream timeout
              enforce_peername peername sid)
    \<and> (SSL_new_res e \<noteq> None \<and> SSL_set_ex_data_res e \<noteq> 0 \<and> BIO_new_bio_pair_res e \<noteq> None \<longrightarrow>
         Tls_bio_connect stream timeout
           \<in> set (snd (tls_client_start p e g client_ctx stream timeout enforce_peername
                         peername sid))
         \<and> (\<forall>c s. SSL_set_session c s
               \<notin> set (snd (tls_client_start p e g client_ctx stream timeout enforce_peername
                             peername sid))))"
proof -
  have l: "fst (load_clnt_session p e g sid) = None"
    using assms by (simp add: load_clnt_session_failure)
  note ps = prime_session_failure[OF l]
  have r: "fst (tls_client_start p e g client_ctx stream timeout enforce_peername peername sid) =
       fst (tls_client_start p e (g\<lparr>tls_client_cache := 0\<rparr>) client_ctx stream timeout
              enforce_peername peername sid)"
    by (auto simp add: tls_client_start_def tls_client_start_handshake_def Let_def
        case_prod_beta ps split: option.splits intro!: connected_result)
  have t: "Tls_bio_connect stream timeout
           \<in> set (snd (tls_client_start p e g client_ctx stream timeout enforce_peername
                         peername sid))
         \<and> (\<forall>c s. SSL_set_session c s
               \<notin> set (snd (tls_client_start p e g client_ctx stream timeout enforce_peername
                             peername sid)))"
    if a: "SSL_new_res e \<noteq> None" "SSL_set_ex_data_res e \<noteq> 0" "BIO_new_bio_pair_res e \<noteq> None"
  proof -
    obtain c ib nb where b: "SSL_new_res e = Some c" "BIO_new_bio_pair_res e = Some (ib, nb)"
      using a by auto
    show ?thesis
    proof (cases "sts (tls_bio_connect e None) \<le> 0")
      case True
      then show ?thesis
        using a(2) b
        by (simp add: tls_client_start_def tls_client_start_handshake_def uncache_session_def
            Let_def case_prod_beta ps)
    next
      case False
      show ?thesis
      proof (intro conjI allI)
        fix c' s
        let ?t0 = "(if 1 \<le> var_smtp_tls_loglevel p
                then [Msg_info ''setting up TLS connection to %s'' [S peername]] else [])
               @ [Tls_alloc_context (var_smtp_tls_loglevel p) peername,
                  SSL_new client_ctx]"
        obtain ctx t where st: "tls_client_start p e g client_ctx stream timeout enforce_peername
              peername sid
            = tls_client_start_connected p client_ctx stream timeout enforce_peername peername
                (tls_bio_connect e None) ctx t"
          and m: "Tls_bio_connect stream timeout \<in> set t"
          and n: "\<forall>c' s. SSL_set_session c' s \<notin> set t"
          using a(2) b False
          by (simp add: tls_client_start_def tls_client_start_handshake_def
              Let_def case_prod_beta ps)
        obtain t' where t': "snd (tls_client_start_connected p client_ctx stream timeout
              enforce_peername peername (tls_bio_connect e None) ctx t) = t @ t'"
            "SSL_set_session c' s \<notin> set t'"
          using connected_trace[of p client_ctx stream timeout enforce_peername peername
              "tls_bio_connect e None" ctx t c' s] by blast
        show "Tls_bio_connect stream timeout
           \<in> set (snd (tls_client_start p e g client_ctx stream timeout enforce_peername
                         peername sid))"
          using st m t' by simp
        show "SSL_set_session c' s
               \<notin> set (snd (tls_client_start p e g client_ctx stream timeout enforce_peername
                             peername sid))"
          using st n t' by simp
      qed
    qed
  qed
  show ?thesis using l r t by blast
qed


theorem cache_failure_fresh_handshake_witness:
  "fst (tls_mgr_lookup (ex_env_corrupt (ex_handshake ex_cert_cn X509_V_OK))
          (tls_client_cache (ex_globals 1)) ''smtp.example.com'') = TLS_MGR_STAT_OK ex_params
   \<and> tls_session_activate (ex_env_corrupt (ex_handshake ex_cert_cn X509_V_OK))
         (snd (tls_mgr_lookup (ex_env_corrupt (ex_handshake ex_cert_cn X509_V_OK))
                 (tls_client_cache (ex_globals 1)) ''smtp.example.com'')) = None
   \<and> fst (tls_mgr_lookup (ex_env (ex_handshake ex_cert_cn X509_V_OK))
          (tls_client_cache (ex_globals 1)) ''smtp.example.com'') \<noteq> TLS_MGR_STAT_OK ex_params
   \<and> fst (tls_client_start ex_params (ex_env_corrupt (ex_handshake ex_cert_cn X509_V_OK))
          (ex_globals 1) 7 5 300 1 ''mail.example.com'' ''smtp.example.com'') =
      fst (tls_client_start ex_params (ex_env_corrupt (ex_handshake ex_cert_cn X509_V_OK))
          ((ex_globals 1)\<lparr>tls_client_cache := 0\<rparr>) 7 5 300 1 ''mail.example.com''
          ''smtp.example.com'')
   \<and> fst (tls_client_start ex_params (ex_env (ex_handshake ex_cert_cn X509_V_OK))
          (ex_globals 1) 7 5 300 1 ''mail.example.com'' ''smtp.example.com'') =
      fst (tls_client_start ex_params (ex_env (ex_handshake ex_cert_cn X509_V_OK))
          ((ex_globals 1)\<lparr>tls_client_cache := 0\<rparr>) 7 5 300 1 ''mail.example.com''
          ''smtp.example.com'')
   \<and> fst (tls_client_start ex_params (ex_env_corrupt (ex_handshake ex_cert_cn X509_V_OK))
          (ex_globals 1) 7 5 300 1 ''mail.example.com'' ''smtp.example.com'') \<noteq> None
   \<and> Tls_bio_connect 5 300
        \<in> set (snd (tls_client_start ex_params
                      (ex_env_corrupt (ex_handshake ex_cert_cn X509_V_OK))
                      (ex_globals 1) 7 5 300 1 ''mail.example.com'' ''smtp.example.com''))"
proof -
  let ?hs = "ex_handshake ex_cert_cn X509_V_OK"
  have ok: "fst (tls_mgr_lookup (ex_env_corrupt ?hs) (tls_client_cache (ex_globals 1))
      ''smtp.example.com'') = TLS_MGR_STAT_OK ex_params"
    by (simp add: ex_env_corrupt_def ex_params_def)
  have bad: "tls_session_activate (ex_env_corrupt ?hs)
      (snd (tls_mgr_lookup (ex_env_corrupt ?hs) (tls_client_cache (ex_globals 1))
              ''smtp.example.com'')) = None"
    by (simp add: ex_env_corrupt_def ex_env_def)
  have down: "fst (tls_mgr_lookup (ex_env ?hs) (tls_client_cache (ex_globals 1))
      ''smtp.example.com'') \<noteq> TLS_MGR_STAT_OK ex_params"
    by (simp add: ex_env_def ex_params_def)
  have alloc: "SSL_new_res (ex_env_corrupt ?hs) \<noteq> None
      \<and> SSL_set_ex_data_res (ex_env_corrupt ?hs) \<noteq> 0
      \<and> BIO_new_bio_pair_res (ex_env_corrupt ?hs) \<noteq> None"
    by (simp add: ex_env_corrupt_def ex_env_def)
  have est: "fst (tls_client_start ex_params (ex_env_corrupt ?hs)
          (ex_globals 1) 7 5 300 1 ''mail.example.com'' ''smtp.example.com'') \<noteq> None"
    by code_simp
  note a = cache_failure_fresh_handshake[of "ex_env_corrupt ?hs" "ex_globals 1"
      "''smtp.example.com''" ex_params 7 5 300 1 "''mail.example.com''", OF disjI2, OF bad]
  note b = cache_failure_fresh_handshake[of "ex_env ?hs" "ex_globals 1"
      "''smtp.example.com''" ex_params 7 5 300 1 "''mail.example.com''", OF disjI1, OF down]
  show ?thesis
    using a b ok bad down alloc est by blast
qed

end
